theory Spec2Isabelle
  imports Main "HOL-Library.Word"
begin

section \<open>Event status values\<close>

text \<open>
  The status of an event is a string, in the JavaScript models as in the Go handlers
  (\<^verbatim>\<open>models/event.go\<close> names the five values as constants).
\<close>

definition REGISTRATION_OPEN :: string where
  "REGISTRATION_OPEN = ''REGISTRATION_OPEN''"

definition REGISTRATION_CLOSED :: string where
  "REGISTRATION_CLOSED = ''REGISTRATION_CLOSED''"

definition LIVE :: string where
  "LIVE = ''LIVE''"

definition SETTLED :: string where
  "SETTLED = ''SETTLED''"

definition VOIDED :: string where
  "VOIDED = ''VOIDED''"

section \<open>The JavaScript model \<^verbatim>\<open>EventMetadata\<close>\<close>

text \<open>
  JavaScript's \<^verbatim>\<open>a || b\<close> yields \<^verbatim>\<open>b\<close> when \<^verbatim>\<open>a\<close> is falsy: \<^verbatim>\<open>undefined\<close>,
  \<^verbatim>\<open>null\<close>, the empty string, the number zero or \<^verbatim>\<open>false\<close>. A property that is
  missing or \<^verbatim>\<open>null\<close> is \<open>None\<close>.
\<close>

definition or_null :: "string option \<Rightarrow> string option" where
  "or_null x = (case x of None \<Rightarrow> None | Some s \<Rightarrow> if s = [] then None else Some s)"

definition or_null_num :: "int option \<Rightarrow> int option" where
  "or_null_num x = (case x of None \<Rightarrow> None | Some n \<Rightarrow> if n = 0 then None else Some n)"

definition or_str :: "string option \<Rightarrow> string \<Rightarrow> string" where
  "or_str x d = (case x of None \<Rightarrow> d | Some s \<Rightarrow> if s = [] then d else s)"

definition or_num :: "int option \<Rightarrow> int \<Rightarrow> int" where
  "or_num x d = (case x of None \<Rightarrow> d | Some n \<Rightarrow> if n = 0 then d else n)"

definition or_bool :: "bool option \<Rightarrow> bool \<Rightarrow> bool" where
  "or_bool x d = (case x of None \<Rightarrow> d | Some b \<Rightarrow> if b then b else d)"

definition or_list :: "'a list option \<Rightarrow> 'a list \<Rightarrow> 'a list" where
  "or_list x d = (case x of None \<Rightarrow> d | Some l \<Rightarrow> l)"

text \<open>
  The object handed to the constructor (\<^verbatim>\<open>data\<close>): every property may be absent.
  Timestamps are milliseconds since the epoch; in the source a timestamp that is present
  is a \<^verbatim>\<open>Date\<close> or an ISO string, so never falsy, and \<^verbatim>\<open>|| null\<close> leaves it as it is.
\<close>

record metadata_data =
  d_event_id :: "string option"
  d_title :: "string option"
  d_description :: "string option"
  d_image_url :: "string option"
  d_organizer_profile_id :: "string option"
  d_location :: "string option"
  d_category :: "string option"
  d_tags :: "string list option"
  d_status :: "string option"
  d_current_participants :: "int option"
  d_deposited_to_yield :: "bool option"
  d_event_settled :: "bool option"
  d_total_yield_earned :: "int option"
  d_total_net_yield :: "int option"
  d_created_at :: "int option"
  d_updated_at :: "int option"

record EventMetadata =
  event_id :: "string option"
  title :: "string option"
  description :: "string option"
  image_url :: "string option"
  organizer_profile_id :: "string option"
  location :: "string option"
  category :: "string option"
  tags :: "string list"
  status :: string
  current_participants :: int
  deposited_to_yield :: bool
  event_settled :: bool
  total_yield_earned :: int
  total_net_yield :: int
  created_at :: "int option"
  updated_at :: "int option"

definition EventMetadata_constructor :: "metadata_data \<Rightarrow> EventMetadata" where
  "EventMetadata_constructor d =
     \<lparr> event_id = or_null (d_event_id d),
       title = or_null (d_title d),
       description = or_null (d_description d),
       image_url = or_null (d_image_url d),
       organizer_profile_id = or_null (d_organizer_profile_id d),
       location = or_null (d_location d),
       category = or_null (d_category d),
       tags = or_list (d_tags d) [],
       status = or_str (d_status d) ''REGISTRATION_OPEN'',
       current_participants = or_num (d_current_participants d) 0,
       deposited_to_yield = or_bool (d_deposited_to_yield d) False,
       event_settled = or_bool (d_event_settled d) False,
       total_yield_earned = or_num (d_total_yield_earned d) 0,
       total_net_yield = or_num (d_total_net_yield d) 0,
       created_at = d_created_at d,
       updated_at = d_updated_at d \<rparr>"

text \<open>
  \<^verbatim>\<open>updateStatusBasedOnTime(registrationDeadline, eventDate)\<close>. The method reads the clock
  twice: \<open>clock\<close> is \<^verbatim>\<open>Date.now()\<close> in milliseconds, from which
  \<^verbatim>\<open>now = Math.floor(Date.now() / 1000)\<close>, and \<open>stamp\<close> is the later \<^verbatim>\<open>new Date()\<close>
  written to \<^verbatim>\<open>updated_at\<close>.
\<close>

definition updateStatusBasedOnTime :: "int \<Rightarrow> int \<Rightarrow> int \<Rightarrow> int \<Rightarrow> EventMetadata \<Rightarrow> EventMetadata" where
  "updateStatusBasedOnTime clock stamp registrationDeadline eventDate m =
     (let now = clock div 1000;
          m1 = (if now < registrationDeadline then m\<lparr>status := ''REGISTRATION_OPEN''\<rparr>
                else if now < eventDate then
                  m\<lparr>status := (if current_participants m > 0 then ''REGISTRATION_CLOSED''
                               else ''VOIDED'')\<rparr>
                else m\<lparr>status := ''LIVE''\<rparr>)
      in m1\<lparr>updated_at := Some stamp\<rparr>)"

definition incrementParticipantCount :: "int \<Rightarrow> EventMetadata \<Rightarrow> EventMetadata" where
  "incrementParticipantCount stamp m =
     m\<lparr>current_participants := current_participants m + 1, updated_at := Some stamp\<rparr>"

definition decrementParticipantCount :: "int \<Rightarrow> EventMetadata \<Rightarrow> EventMetadata" where
  "decrementParticipantCount stamp m =
     (if current_participants m > 0
      then m\<lparr>current_participants := current_participants m - 1, updated_at := Some stamp\<rparr>
      else m)"

text \<open>A call of one of the two counter methods, with the clock reading it makes.\<close>

datatype counter_call = Increment int | Decrement int

fun counter_step :: "EventMetadata \<Rightarrow> counter_call \<Rightarrow> EventMetadata" where
  "counter_step m (Increment stamp) = incrementParticipantCount stamp m"
| "counter_step m (Decrement stamp) = decrementParticipantCount stamp m"

definition counter_calls :: "counter_call list \<Rightarrow> EventMetadata \<Rightarrow> EventMetadata" where
  "counter_calls cs m = foldl counter_step m cs"

text \<open>
  \<^verbatim>\<open>EventMetadata.fromDatabaseRow(row)\<close> copies the sixteen columns into a fresh
  \<^verbatim>\<open>data\<close> object (\<^verbatim>\<open>tags: row.tags || []\<close>) and constructs the model from it.
\<close>

definition EventMetadata_fromDatabaseRow :: "metadata_data \<Rightarrow> EventMetadata" where
  "EventMetadata_fromDatabaseRow row =
     EventMetadata_constructor
       \<lparr> d_event_id = d_event_id row, d_title = d_title row,
         d_description = d_description row, d_image_url = d_image_url row,
         d_organizer_profile_id = d_organizer_profile_id row, d_location = d_location row,
         d_category = d_category row, d_tags = Some (or_list (d_tags row) []),
         d_status = d_status row, d_current_participants = d_current_participants row,
         d_deposited_to_yield = d_deposited_to_yield row,
         d_event_settled = d_event_settled row,
         d_total_yield_earned = d_total_yield_earned row,
         d_total_net_yield = d_total_net_yield row,
         d_created_at = d_created_at row, d_updated_at = d_updated_at row \<rparr>"

text \<open>An \<^verbatim>\<open>EventMetadata\<close> object read as constructor input: its properties, as they are.\<close>

definition metadata_as_data :: "EventMetadata \<Rightarrow> metadata_data" where
  "metadata_as_data m =
     \<lparr> d_event_id = event_id m, d_title = title m, d_description = description m,
       d_image_url = image_url m, d_organizer_profile_id = organizer_profile_id m,
       d_location = location m, d_category = category m, d_tags = Some (tags m),
       d_status = Some (status m), d_current_participants = Some (current_participants m),
       d_deposited_to_yield = Some (deposited_to_yield m),
       d_event_settled = Some (event_settled m),
       d_total_yield_earned = Some (total_yield_earned m),
       d_total_net_yield = Some (total_net_yield m),
       d_created_at = created_at m, d_updated_at = updated_at m \<rparr>"

section \<open>The JavaScript models \<^verbatim>\<open>EventOnchain\<close> and \<^verbatim>\<open>Event\<close>\<close>

text \<open>
  The indexer's event, the row of \<^verbatim>\<open>events_onchain\<close> and the \<^verbatim>\<open>EventOnchain\<close> object have
  the same properties, each of which may be \<^verbatim>\<open>null\<close>; one record serves for the three.
  (\<^verbatim>\<open>_gs_chain\<close> and \<^verbatim>\<open>_gs_gid\<close> lose their leading underscore.)
\<close>

record EventOnchain =
  o_vid :: "int option"
  o_block :: "int option"
  o_id :: "string option"
  o_block_number :: "int option"
  o_timestamp :: "int option"
  o_transaction_hash :: "string option"
  o_contract_id :: "string option"
  o_event_id :: "string option"
  o_vault :: "string option"
  o_organizer :: "string option"
  o_stake_amount :: "string option"
  o_max_participant :: "int option"
  o_registration_deadline :: "int option"
  o_event_date :: "int option"
  o_gs_chain :: "string option"
  o_gs_gid :: "string option"
  o_created_at :: "int option"
  o_updated_at :: "int option"

definition EventOnchain_constructor :: "EventOnchain \<Rightarrow> EventOnchain" where
  "EventOnchain_constructor d =
     \<lparr> o_vid = or_null_num (o_vid d),
       o_block = or_null_num (o_block d),
       o_id = or_null (o_id d),
       o_block_number = or_null_num (o_block_number d),
       o_timestamp = or_null_num (o_timestamp d),
       o_transaction_hash = or_null (o_transaction_hash d),
       o_contract_id = or_null (o_contract_id d),
       o_event_id = or_null (o_event_id d),
       o_vault = or_null (o_vault d),
       o_organizer = or_null (o_organizer d),
       o_stake_amount = or_null (o_stake_amount d),
       o_max_participant = or_null_num (o_max_participant d),
       o_registration_deadline = or_null_num (o_registration_deadline d),
       o_event_date = or_null_num (o_event_date d),
       o_gs_chain = or_null (o_gs_chain d),
       o_gs_gid = or_null (o_gs_gid d),
       o_created_at = o_created_at d,
       o_updated_at = o_updated_at d \<rparr>"

text \<open>\<^verbatim>\<open>EventOnchain.fromDatabaseRow(row)\<close> copies all eighteen properties of the row.\<close>

definition EventOnchain_fromDatabaseRow :: "EventOnchain \<Rightarrow> EventOnchain" where
  "EventOnchain_fromDatabaseRow row = EventOnchain_constructor row"

text \<open>\<^verbatim>\<open>a || b\<close> on two nullable strings, as in \<^verbatim>\<open>this.onchain.event_id || this.metadata.event_id\<close>.\<close>

definition or_else :: "string option \<Rightarrow> string option \<Rightarrow> string option" where
  "or_else a b = (case or_null a of Some s \<Rightarrow> Some s | None \<Rightarrow> b)"

record Event =
  onchain :: EventOnchain
  metadata :: EventMetadata
  ev_event_id :: "string option"
  vault_address :: "string option"
  organizer_address :: "string option"
  stake_amount :: "string option"
  max_participants :: "int option"

text \<open>
  \<^verbatim>\<open>new Event({onchain: o, metadata: m})\<close> with both properties objects (so truthy: the
  \<^verbatim>\<open>|| data\<close> alternatives are not taken); each is passed through its constructor again.
\<close>

definition Event_constructor :: "EventOnchain \<Rightarrow> EventMetadata \<Rightarrow> Event" where
  "Event_constructor o_data m_data =
     (let oc = EventOnchain_constructor o_data;
          md = EventMetadata_constructor (metadata_as_data m_data)
      in \<lparr> onchain = oc, metadata = md,
           ev_event_id = or_else (o_event_id oc) (event_id md),
           vault_address = o_vault oc,
           organizer_address = o_organizer oc,
           stake_amount = o_stake_amount oc,
           max_participants = o_max_participant oc \<rparr>)"

definition Event_fromDatabaseData :: "EventOnchain \<Rightarrow> metadata_data \<Rightarrow> Event" where
  "Event_fromDatabaseData onchainRow metadataRow =
     Event_constructor (EventOnchain_fromDatabaseRow onchainRow)
                       (EventMetadata_fromDatabaseRow metadataRow)"

section \<open>The JavaScript \<^verbatim>\<open>DatabaseService\<close>\<close>

text \<open>
  The three tables the service touches. Rows are kept in insertion order. An event
  identifier is kept in its text form in both tables (the queries compare
  \<^verbatim>\<open>eo.event_id = em.event_id::text\<close>). A profile is its \<^verbatim>\<open>id\<close> and \<^verbatim>\<open>wallet_address\<close>.
\<close>

record js_db =
  events_onchain :: "EventOnchain list"
  events_metadata :: "metadata_data list"
  profiles :: "(string \<times> string) list"

text \<open>SQL equality: a comparison with \<^verbatim>\<open>NULL\<close> selects nothing.\<close>

definition sql_eq :: "'a option \<Rightarrow> 'a option \<Rightarrow> bool" where
  "sql_eq a b = (case a of None \<Rightarrow> False | Some x \<Rightarrow> (case b of None \<Rightarrow> False | Some y \<Rightarrow> x = y))"

text \<open>
  The statements a call sends, by name. Whether one fails (connection lost, constraint
  of the schema violated, value of the wrong type) is decided outside the source: every
  operation takes a predicate \<open>fails\<close> on statements, and a failing statement changes
  nothing and throws.
\<close>

datatype stmt =
  Connect | Begin | UpsertOnchain | SelectMetadata | SelectProfile | InsertMetadata
  | Commit | Rollback | SelectComplete

datatype js_error = TypeError | QueryError stmt

text \<open>
  A pooled connection: the committed database and, while a transaction is open, its
  working copy. Statements read and write the working copy inside a transaction;
  \<^verbatim>\<open>COMMIT\<close> stores it, \<^verbatim>\<open>ROLLBACK\<close> drops it.
\<close>

record client =
  stored :: js_db
  txn :: "js_db option"

definition query_BEGIN :: "client \<Rightarrow> client" where
  "query_BEGIN c = (case txn c of None \<Rightarrow> c\<lparr>txn := Some (stored c)\<rparr> | Some w \<Rightarrow> c)"

definition query_COMMIT :: "client \<Rightarrow> client" where
  "query_COMMIT c = (case txn c of None \<Rightarrow> c | Some w \<Rightarrow> \<lparr>stored = w, txn = None\<rparr>)"

definition query_ROLLBACK :: "client \<Rightarrow> client" where
  "query_ROLLBACK c = c\<lparr>txn := None\<rparr>"

definition db_view :: "client \<Rightarrow> js_db" where
  "db_view c = (case txn c of None \<Rightarrow> stored c | Some w \<Rightarrow> w)"

definition db_write :: "(js_db \<Rightarrow> js_db) \<Rightarrow> client \<Rightarrow> client" where
  "db_write f c = (case txn c of None \<Rightarrow> c\<lparr>stored := f (stored c)\<rparr>
                | Some w \<Rightarrow> c\<lparr>txn := Some (f w)\<rparr>)"

text \<open>
  \<^verbatim>\<open>INSERT INTO events_onchain (...) VALUES (...) ON CONFLICT (transaction_hash) DO UPDATE
  SET updated_at = NOW() RETURNING *\<close>: a row with the same transaction hash has its
  \<^verbatim>\<open>updated_at\<close> set; otherwise the sixteen values become a new row (its \<^verbatim>\<open>created_at\<close> and
  \<^verbatim>\<open>updated_at\<close> are the schema's defaults, left \<^verbatim>\<open>NULL\<close> here). The row is returned.
\<close>

definition same_hash :: "EventOnchain \<Rightarrow> EventOnchain \<Rightarrow> bool" where
  "same_hash ev r = sql_eq (o_transaction_hash r) (o_transaction_hash ev)"

definition upsert_onchain_rows ::
  "int \<Rightarrow> EventOnchain \<Rightarrow> EventOnchain list \<Rightarrow> EventOnchain \<times> EventOnchain list" where
  "upsert_onchain_rows now ev rows =
     (case find (same_hash ev) rows of
        Some r \<Rightarrow>
          (r\<lparr>o_updated_at := Some now\<rparr>,
           map (\<lambda>r. if same_hash ev r then r\<lparr>o_updated_at := Some now\<rparr> else r) rows)
      | None \<Rightarrow>
          (let row = ev\<lparr>o_created_at := None, o_updated_at := None\<rparr>
           in (row, rows @ [row])))"

text \<open>\<^verbatim>\<open>SELECT * FROM events_metadata WHERE event_id = $1\<close>\<close>

definition select_metadata :: "js_db \<Rightarrow> string option \<Rightarrow> metadata_data list" where
  "select_metadata db eid = filter (\<lambda>r. sql_eq (d_event_id r) eid) (events_metadata db)"

text \<open>\<^verbatim>\<open>SELECT id FROM profiles WHERE wallet_address = $1 LIMIT 1\<close>\<close>

definition select_profile :: "js_db \<Rightarrow> string option \<Rightarrow> string list" where
  "select_profile db wallet =
     take 1 (map fst (filter (\<lambda>p. sql_eq (Some (snd p)) wallet) (profiles db)))"

text \<open>
  \<^verbatim>\<open>INSERT INTO events_metadata (event_id, title, organizer_profile_id) VALUES ($1, $2, $3)
  ON CONFLICT (event_id) DO NOTHING\<close>; the columns not named are left \<^verbatim>\<open>NULL\<close> here.
\<close>

definition insert_metadata_rows ::
  "string option \<Rightarrow> string \<Rightarrow> string option \<Rightarrow> metadata_data list \<Rightarrow> metadata_data list" where
  "insert_metadata_rows eid ttl organizer rows =
     (if list_ex (\<lambda>r. sql_eq (d_event_id r) eid) rows then rows
      else rows @
        [\<lparr> d_event_id = eid, d_title = Some ttl, d_description = None, d_image_url = None,
           d_organizer_profile_id = organizer, d_location = None, d_category = None,
           d_tags = None, d_status = None, d_current_participants = None,
           d_deposited_to_yield = None, d_event_settled = None,
           d_total_yield_earned = None, d_total_net_yield = None,
           d_created_at = None, d_updated_at = None \<rparr>])"

text \<open>
  A property of the indexer's event inside a template literal. The indexer's JSON names
  every property and gives \<^verbatim>\<open>null\<close> to one without a value, which prints as \<^verbatim>\<open>null\<close>.
\<close>

definition template_str :: "string option \<Rightarrow> string" where
  "template_str x = (case x of None \<Rightarrow> ''null'' | Some s \<Rightarrow> s)"

text \<open>
  The body of the \<^verbatim>\<open>try\<close> block of \<^verbatim>\<open>upsertEventFromGoldsky\<close>, from \<^verbatim>\<open>BEGIN\<close> to the
  \<^verbatim>\<open>return\<close>: the value returned or the error thrown, and the connection as it then is.
  The member of the batch is \<open>None\<close> when it is \<^verbatim>\<open>null\<close>: reading \<^verbatim>\<open>goldskyEvent.vid\<close> then
  throws a \<^verbatim>\<open>TypeError\<close>.
\<close>

definition upsert_commit ::
  "(stmt \<Rightarrow> bool) \<Rightarrow> EventOnchain \<Rightarrow> client \<Rightarrow> (js_error + EventOnchain) \<times> client" where
  "upsert_commit fails row c =
     (if fails Commit then (Inl (QueryError Commit), c)
      else (Inr (EventOnchain_fromDatabaseRow row), query_COMMIT c))"

definition upsert_try ::
  "(stmt \<Rightarrow> bool) \<Rightarrow> int \<Rightarrow> EventOnchain option \<Rightarrow> client
     \<Rightarrow> (js_error + EventOnchain) \<times> client" where
  "upsert_try fails now goldskyEvent c0 =
     (if fails Begin then (Inl (QueryError Begin), c0)
      else
        let c1 = query_BEGIN c0 in
        case goldskyEvent of
          None \<Rightarrow> (Inl TypeError, c1)
        | Some ev \<Rightarrow>
            if fails UpsertOnchain then (Inl (QueryError UpsertOnchain), c1)
            else
              let (row, rows) = upsert_onchain_rows now ev (events_onchain (db_view c1));
                  c2 = db_write (\<lambda>db. db\<lparr>events_onchain := rows\<rparr>) c1
              in
              if fails SelectMetadata then (Inl (QueryError SelectMetadata), c2)
              else if length (select_metadata (db_view c2) (o_event_id ev)) = 0 then
                (let defaultTitle = ''Event '' @ template_str (o_event_id ev) in
                 if fails SelectProfile then (Inl (QueryError SelectProfile), c2)
                 else
                   let organizerProfileId =
                         (case select_profile (db_view c2) (o_organizer ev) of
                            [] \<Rightarrow> None
                          | pid # _ \<Rightarrow> or_null (Some pid))
                   in
                   if fails InsertMetadata then (Inl (QueryError InsertMetadata), c2)
                   else
                     upsert_commit fails row
                       (db_write (\<lambda>db. db\<lparr>events_metadata :=
                                 insert_metadata_rows (o_event_id ev) defaultTitle
                                   organizerProfileId (events_metadata db)\<rparr>) c2))
              else upsert_commit fails row c2)"

text \<open>
  \<^verbatim>\<open>upsertEventFromGoldsky(goldskyEvent)\<close>. The pool is its connection \<open>pool\<close>, which
  \<^verbatim>\<open>this.pool.connect()\<close> hands out (outside the \<^verbatim>\<open>try\<close>) and \<^verbatim>\<open>client.release()\<close> gives back
  in the state the call leaves it in, for the next call to take. The block above runs,
  and the \<^verbatim>\<open>catch\<close> sends \<^verbatim>\<open>ROLLBACK\<close> and throws the error again; when the \<^verbatim>\<open>ROLLBACK\<close>
  fails as well, its error is the one thrown and, like any failing statement, it has
  changed nothing.
\<close>

definition upsertEventFromGoldsky ::
  "(stmt \<Rightarrow> bool) \<Rightarrow> int \<Rightarrow> client \<Rightarrow> EventOnchain option
     \<Rightarrow> (js_error + EventOnchain) \<times> client" where
  "upsertEventFromGoldsky fails now pool goldskyEvent =
     (if fails Connect then (Inl (QueryError Connect), pool)
      else
        case upsert_try fails now goldskyEvent pool of
          (Inr saved, c) \<Rightarrow> (Inr saved, c)
        | (Inl e, c) \<Rightarrow>
            if fails Rollback then (Inl (QueryError Rollback), c)
            else (Inl e, query_ROLLBACK c))"

text \<open>
  \<^verbatim>\<open>getCompleteEvent(eventId)\<close>. The \<^verbatim>\<open>LEFT JOIN\<close> gives, for an on-chain row with the
  identifier, one row per metadata row of that identifier, or a single row whose
  metadata columns are all \<^verbatim>\<open>NULL\<close> when there is none. The result is \<^verbatim>\<open>null\<close> (\<open>None\<close>)
  when no row comes back, and else built from the first row.
\<close>

definition null_metadata :: metadata_data where
  "null_metadata =
     \<lparr> d_event_id = None, d_title = None, d_description = None, d_image_url = None,
       d_organizer_profile_id = None, d_location = None, d_category = None, d_tags = None,
       d_status = None, d_current_participants = None, d_deposited_to_yield = None,
       d_event_settled = None, d_total_yield_earned = None, d_total_net_yield = None,
       d_created_at = None, d_updated_at = None \<rparr>"

definition left_join :: "js_db \<Rightarrow> string option \<Rightarrow> (EventOnchain \<times> metadata_data) list" where
  "left_join db eventId =
     concat (map (\<lambda>eo.
        (case filter (\<lambda>em. sql_eq (o_event_id eo) (d_event_id em)) (events_metadata db) of
           [] \<Rightarrow> [(eo, null_metadata)]
         | ems \<Rightarrow> map (\<lambda>em. (eo, em)) ems))
       (filter (\<lambda>eo. sql_eq (o_event_id eo) eventId) (events_onchain db)))"

definition getCompleteEvent :: "(stmt \<Rightarrow> bool) \<Rightarrow> js_db \<Rightarrow> string option \<Rightarrow> js_error + Event option" where
  "getCompleteEvent fails db eventId =
     (if fails SelectComplete then Inl (QueryError SelectComplete)
      else
        case left_join db eventId of
          [] \<Rightarrow> Inr None
        | (eo, em) # _ \<Rightarrow>
            (let onchainData = eo\<lparr>o_created_at := None, o_updated_at := None\<rparr>;
                 metadataData = em\<lparr>d_event_id := o_event_id eo\<rparr>
             in Inr (Some (Event_fromDatabaseData onchainData metadataData))))"

section \<open>The JavaScript controller: the indexer webhook\<close>

text \<open>
  One entry of \<^verbatim>\<open>processed_events\<close>: \<^verbatim>\<open>{event_id, vault, status: 'processed'}\<close> or
  \<^verbatim>\<open>{event_id, status: 'error', error}\<close>.
\<close>

datatype processed_event =
  Processed "string option" "string option"
  | Failed "string option" js_error

datatype webhook_response =
  Invalid_payload_400
  | Success_200 "processed_event list" nat
  | Failed_to_process_500 js_error

text \<open>
  The \<^verbatim>\<open>for ... of\<close> loop of \<^verbatim>\<open>handleGoldskyWebhook\<close>, member \<open>i\<close> onwards. Each member has
  its own failures \<open>fails i\<close> and clock reading \<open>now i\<close>. The inner \<^verbatim>\<open>catch\<close> evaluates
  \<^verbatim>\<open>goldskyEvent.event_id\<close> for its log line and its entry: on a \<^verbatim>\<open>null\<close> member that
  throws again, out of the loop.
\<close>

fun process_events ::
  "(nat \<Rightarrow> stmt \<Rightarrow> bool) \<Rightarrow> (nat \<Rightarrow> int) \<Rightarrow> nat \<Rightarrow> client \<Rightarrow> EventOnchain option list
     \<Rightarrow> processed_event list \<Rightarrow> (js_error + processed_event list) \<times> client" where
  "process_events fails now i pool [] processedEvents = (Inr processedEvents, pool)"
| "process_events fails now i pool (goldskyEvent # rest) processedEvents =
     (case upsertEventFromGoldsky (fails i) (now i) pool goldskyEvent of
        (Inr savedEvent, pool') \<Rightarrow>
          process_events fails now (Suc i) pool' rest
            (processedEvents @ [Processed (o_event_id savedEvent) (o_vault savedEvent)])
      | (Inl error, pool') \<Rightarrow>
          (case goldskyEvent of
             None \<Rightarrow> (Inl TypeError, pool')
           | Some ev \<Rightarrow>
               process_events fails now (Suc i) pool' rest
                 (processedEvents @ [Failed (o_event_id ev) error])))"

text \<open>
  \<^verbatim>\<open>handleGoldskyWebhook\<close>: \<open>events\<close> is \<open>None\<close> when \<^verbatim>\<open>req.body.events\<close> is not an array.
  The connection of the pool goes from one member's upsert to the next.
\<close>

definition handleGoldskyWebhook ::
  "(nat \<Rightarrow> stmt \<Rightarrow> bool) \<Rightarrow> (nat \<Rightarrow> int) \<Rightarrow> client \<Rightarrow> EventOnchain option list option
     \<Rightarrow> webhook_response \<times> client" where
  "handleGoldskyWebhook fails now pool events =
     (case events of
        None \<Rightarrow> (Invalid_payload_400, pool)
      | Some evs \<Rightarrow>
          (case process_events fails now 0 pool evs [] of
             (Inr processedEvents, pool') \<Rightarrow>
               (Success_200 processedEvents (length processedEvents), pool')
           | (Inl error, pool') \<Rightarrow> (Failed_to_process_500 error, pool')))"

section \<open>The Go handlers: data\<close>

text \<open>
  Go's \<^verbatim>\<open>int64\<close> and \<^verbatim>\<open>int\<close> are 64-bit words: \<open>+\<close> wraps, and \<open>sint\<close> reads the signed
  value. Times are seconds since the epoch; \<open>zero_time\<close> is Go's zero \<^verbatim>\<open>time.Time\<close>.
\<close>

type_synonym int64 = "64 word"

definition zero_time :: int where
  "zero_time = -62135596800"

datatype http_status =
  StatusOK | StatusCreated | StatusBadRequest | StatusUnauthorized | StatusForbidden
  | StatusNotFound | StatusConflict | StatusInternalServerError

record go_EventOnchain =
  eo_EventID :: int64
  eo_VaultAddress :: string
  eo_OrganizerAddress :: string
  eo_StakeAmount :: string
  eo_MaxParticipants :: int64
  eo_RegistrationDeadline :: int64
  eo_EventDate :: int64

record go_EventMetadata =
  em_EventID :: int64
  em_Title :: string
  em_Status :: string
  em_Description :: "string option"
  em_ImageURL :: "string option"

text \<open>A row of \<^verbatim>\<open>events_metadata\<close>: the five columns of the struct and \<^verbatim>\<open>updated_at\<close>.\<close>

record metadata_row =
  mr_event_id :: int64
  mr_title :: string
  mr_description :: "string option"
  mr_image_url :: "string option"
  mr_status :: string
  mr_updated_at :: "int option"

record EventDetail =
  ed_EventID :: int64
  ed_VaultAddress :: string
  ed_OrganizerAddress :: string
  ed_StakeAmount :: string
  ed_MaxParticipants :: int64
  ed_CurrentParticipants :: int64
  ed_RegistrationDeadline :: int64
  ed_EventDate :: int64
  ed_Title :: string
  ed_Status :: string
  ed_Description :: "string option"
  ed_ImageURL :: "string option"
  ed_OrganizerName :: string

record Profile =
  pr_ID :: string
  pr_WalletAddress :: string
  pr_Name :: "string option"
  pr_Email :: "string option"
  pr_Balance :: string

record CheckIn =
  ci_ID :: string
  ci_EventID :: string
  ci_UserAddress :: string
  ci_QRData :: string
  ci_CheckedInAt :: int
  ci_IsValidated :: bool
  ci_ValidatedAt :: "int option"
  ci_ValidatedBy :: string

record ValidateCheckInRequest =
  CheckInID :: string
  IsValid :: bool

text \<open>
  A row of \<^verbatim>\<open>participant\<close> (its generated \<^verbatim>\<open>id\<close> plays no part and is left out; the event
  identifier is kept as the text the check-in carries) and a row of the legacy \<^verbatim>\<open>events\<close>
  table, of which the handlers read \<^verbatim>\<open>id\<close> and \<^verbatim>\<open>organizer_address\<close>.
\<close>

record participant_row =
  pt_event_id :: string
  pt_user_id :: string
  pt_is_attend :: bool
  pt_is_claim :: bool

record go_db =
  g_events_onchain :: "go_EventOnchain list"
  g_events_metadata :: "metadata_row list"
  g_profiles :: "Profile list"
  g_participant :: "participant_row list"
  g_checkins :: "CheckIn list"
  g_events :: "(string \<times> string) list"

text \<open>
  The statements the handlers send. As for the JavaScript service, a predicate \<open>fails\<close>
  given from outside says which of them return an error; a failing statement changes
  nothing.
\<close>

datatype query =
  SettleSelect | SettleUpdate | ConfirmUpdate
  | CheckinSelect | OrganizerSelect | CheckinUpdate
  | ProfileIdSelect | ParticipantUpdate | ParticipantInsert
  | ProfileSelect | EventsSelect | EventsCount
  | OnchainExists | MetadataUpsert | DetailSelect

text \<open>
  What a handler writes with \<^verbatim>\<open>c.JSON\<close>. An error reply is its status and its
  \<^verbatim>\<open>"error"\<close> text (the driver's \<^verbatim>\<open>"details"\<close> are left out); \<open>Bind_error\<close> is the 400 that
  carries the binder's own message.
\<close>

datatype reply =
  Reply_error http_status string
  | Bind_error
  | Reply_message string
  | Reply_confirmed string string
  | Reply_checkin CheckIn
  | Reply_profile Profile
  | Reply_events "EventDetail list" int int64 int64
  | Created_metadata go_EventMetadata
  | Created_detail EventDetail

fun status_code :: "reply \<Rightarrow> http_status" where
  "status_code (Reply_error code msg) = code"
| "status_code Bind_error = StatusBadRequest"
| "status_code (Reply_message msg) = StatusOK"
| "status_code (Reply_confirmed msg tx) = StatusOK"
| "status_code (Reply_checkin c) = StatusOK"
| "status_code (Reply_profile p) = StatusOK"
| "status_code (Reply_events evs n page limit) = StatusOK"
| "status_code (Created_metadata m) = StatusCreated"
| "status_code (Created_detail d) = StatusCreated"

text \<open>
  The error of \<^verbatim>\<open>QueryRow(...).Scan(...)\<close>. The handlers hold a \<^verbatim>\<open>pgxpool.Pool\<close>: a query
  without a row gives pgx's own \<^verbatim>\<open>ErrNoRows\<close>, which is another value than the
  \<^verbatim>\<open>sql.ErrNoRows\<close> of \<^verbatim>\<open>database/sql\<close> that the handlers compare it with. \<open>row\<close> is the
  first row of the result, if any.
\<close>

datatype scan_error = sql_ErrNoRows | pgx_ErrNoRows | driver_error

definition QueryRow :: "bool \<Rightarrow> 'a option \<Rightarrow> scan_error + 'a" where
  "QueryRow failed row =
     (if failed then Inl driver_error
      else case row of None \<Rightarrow> Inl pgx_ErrNoRows | Some r \<Rightarrow> Inr r)"

section \<open>The Go handlers: settlement\<close>

text \<open>
  \<^verbatim>\<open>UPDATE events_metadata SET status = 'SETTLED', updated_at = $1 WHERE event_id = $2\<close>
\<close>

definition set_settled :: "int \<Rightarrow> int64 \<Rightarrow> metadata_row list \<Rightarrow> metadata_row list" where
  "set_settled now e rows =
     map (\<lambda>r. if mr_event_id r = e then r\<lparr>mr_status := ''SETTLED'', mr_updated_at := Some now\<rparr>
               else r) rows"

text \<open>
  \<^verbatim>\<open>SettleEvent\<close>. The path parameter \<^verbatim>\<open>id\<close> is text that the database reads as a
  \<^verbatim>\<open>bigint\<close>: \<open>eventID\<close> is that number, or \<open>None\<close> when the text is not one and the statement
  fails.
\<close>

definition SettleEvent :: "(query \<Rightarrow> bool) \<Rightarrow> int \<Rightarrow> go_db \<Rightarrow> int64 option \<Rightarrow> reply \<times> go_db" where
  "SettleEvent fails now db eventID =
     (case eventID of
        None \<Rightarrow> (Reply_error StatusInternalServerError ''Database error'', db)
      | Some e \<Rightarrow>
          case QueryRow (fails SettleSelect)
                 (find (\<lambda>r. mr_event_id r = e) (g_events_metadata db)) of
            Inl err \<Rightarrow>
              if err = sql_ErrNoRows then (Reply_error StatusNotFound ''Event not found'', db)
              else (Reply_error StatusInternalServerError ''Database error'', db)
          | Inr r \<Rightarrow>
              if mr_status r \<noteq> ''LIVE''
              then (Reply_error StatusBadRequest ''Event is not live'', db)
              else if fails SettleUpdate
              then (Reply_error StatusInternalServerError ''Failed to update event status'', db)
              else (Reply_message ''Event settled successfully'',
                    db\<lparr>g_events_metadata := set_settled now e (g_events_metadata db)\<rparr>))"

text \<open>
  \<^verbatim>\<open>ConfirmSettlement\<close>. The body is \<open>None\<close> when it is not JSON of the right shape; both
  fields are \<^verbatim>\<open>binding:"required"\<close> (a string must not be empty, a slice must be there).
\<close>

record confirm_request =
  TransactionHash :: string
  AttendedParticipants :: "string list option"

definition ConfirmSettlement ::
  "(query \<Rightarrow> bool) \<Rightarrow> int \<Rightarrow> go_db \<Rightarrow> int64 option \<Rightarrow> confirm_request option \<Rightarrow> reply \<times> go_db" where
  "ConfirmSettlement fails now db eventID body =
     (case body of
        None \<Rightarrow> (Bind_error, db)
      | Some req \<Rightarrow>
          if TransactionHash req = [] \<or> AttendedParticipants req = None then (Bind_error, db)
          else
            case eventID of
              None \<Rightarrow> (Reply_error StatusInternalServerError ''Failed to update event status'', db)
            | Some e \<Rightarrow>
                if fails ConfirmUpdate
                then (Reply_error StatusInternalServerError ''Failed to update event status'', db)
                else (Reply_confirmed ''Event settlement confirmed successfully''
                        (TransactionHash req),
                      db\<lparr>g_events_metadata := set_settled now e (g_events_metadata db)\<rparr>))"

section \<open>The Go handlers: validating a check-in\<close>

text \<open>
  The block \<^verbatim>\<open>if req.IsValid { ... }\<close> of \<^verbatim>\<open>ValidateCheckIn\<close>, which marks the attendance
  in \<^verbatim>\<open>participant\<close>. Each of its errors is logged, nothing more. The table has
  \<^verbatim>\<open>event_id\<close> unique, so the \<^verbatim>\<open>INSERT\<close> fails when the event has a row already (the
  source says so in a comment).
\<close>

definition mark_attended :: "(query \<Rightarrow> bool) \<Rightarrow> go_db \<Rightarrow> CheckIn \<Rightarrow> go_db" where
  "mark_attended fails db checkin =
     (if fails ProfileIdSelect then db
      else
        case find (\<lambda>p. pr_WalletAddress p = ci_UserAddress checkin) (g_profiles db) of
          None \<Rightarrow> db
        | Some p \<Rightarrow>
            (let userID = pr_ID p in
             if fails ParticipantUpdate then db
             else if list_ex (\<lambda>x. pt_user_id x = userID) (g_participant db)
             then db\<lparr>g_participant :=
                       map (\<lambda>x. if pt_user_id x = userID then x\<lparr>pt_is_attend := True\<rparr> else x)
                         (g_participant db)\<rparr>
             else if fails ParticipantInsert
                     \<or> list_ex (\<lambda>x. pt_event_id x = ci_EventID checkin) (g_participant db)
             then db
             else db\<lparr>g_participant := g_participant db @
                       [\<lparr> pt_event_id = ci_EventID checkin, pt_user_id = userID,
                          pt_is_attend = True, pt_is_claim = False \<rparr>]\<rparr>))"

text \<open>
  \<^verbatim>\<open>ValidateCheckIn\<close>; \<open>organizerAddress\<close> is \<^verbatim>\<open>c.GetString("user_address")\<close>.
\<close>

definition ValidateCheckIn ::
  "(query \<Rightarrow> bool) \<Rightarrow> int \<Rightarrow> go_db \<Rightarrow> string \<Rightarrow> ValidateCheckInRequest option \<Rightarrow> reply \<times> go_db" where
  "ValidateCheckIn fails now db organizerAddress body =
     (case body of
        None \<Rightarrow> (Bind_error, db)
      | Some req \<Rightarrow>
          if CheckInID req = [] then (Bind_error, db)
          else if organizerAddress = [] then (Reply_error StatusUnauthorized ''Unauthorized'', db)
          else
            case QueryRow (fails CheckinSelect)
                   (find (\<lambda>c. ci_ID c = CheckInID req) (g_checkins db)) of
              Inl err \<Rightarrow>
                if err = sql_ErrNoRows
                then (Reply_error StatusNotFound ''Check-in not found'', db)
                else (Reply_error StatusInternalServerError ''Database error'', db)
            | Inr found \<Rightarrow>
                (let eventID = ci_EventID found in
                   case QueryRow (fails OrganizerSelect)
                          (find (\<lambda>e. fst e = eventID) (g_events db)) of
                     Inl err \<Rightarrow> (Reply_error StatusInternalServerError ''Database error'', db)
                   | Inr e \<Rightarrow>
                       if snd e \<noteq> organizerAddress
                       then (Reply_error StatusForbidden
                               ''Not authorized to validate this check-in'', db)
                       else
                         (let validatedAt = (if IsValid req then now else zero_time) in
                          if fails CheckinUpdate
                          then (Reply_error StatusInternalServerError
                                  ''Failed to update check-in'', db)
                          else
                            let validate = (\<lambda>c. c\<lparr>ci_IsValidated := IsValid req,
                                                   ci_ValidatedAt := Some validatedAt,
                                                   ci_ValidatedBy := organizerAddress\<rparr>);
                                checkin = validate found;
                                db1 = db\<lparr>g_checkins :=
                                        map (\<lambda>c. if ci_ID c = CheckInID req then validate c else c)
                                          (g_checkins db)\<rparr>
                            in (Reply_checkin checkin,
                                if IsValid req then mark_attended fails db1 checkin else db1))))"

section \<open>The Go handlers: reads through the blockchain node\<close>

text \<open>
  The Ethereum side is outside the repository: the node (\<open>client\<close>, \<open>None\<close> for a \<^verbatim>\<open>nil\<close>
  client, else \<^verbatim>\<open>CallContract\<close> from a contract address and call data to the bytes
  returned, or \<open>None\<close> for an error), and the go-ethereum library functions the helpers
  call: the address check, the ABI encoding of the two calls, the decoding of a
  \<^verbatim>\<open>uint256\<close> and the printing of a balance divided by a million as a \<^verbatim>\<open>big.Float\<close>.
\<close>

record eth =
  client :: "(string \<Rightarrow> string \<Rightarrow> string option) option"
  IsHexAddress :: "string \<Rightarrow> bool"
  HexToAddress :: "string \<Rightarrow> string"
  pack_balanceOf :: "string \<Rightarrow> string"
  pack_getParticipantCount :: string
  unpack_uint256 :: "string \<Rightarrow> int option"
  usdc_string :: "int \<Rightarrow> string"

datatype go_error =
  Client_not_initialized | Invalid_wallet_address | Call_failed | Empty_result | Unpack_failed

definition usdcAddress :: string where
  "usdcAddress = ''0x036CbD53842c5426634e7929541eC2318f3dCF7e''"

text \<open>\<^verbatim>\<open>getUSDCBalanceFromContract\<close> returns a string and an error (\<open>None\<close> for \<^verbatim>\<open>nil\<close>).\<close>

definition getUSDCBalanceFromContract :: "eth \<Rightarrow> string \<Rightarrow> string \<times> go_error option" where
  "getUSDCBalanceFromContract h walletAddress =
     (case client h of
        None \<Rightarrow> (''0'', Some Client_not_initialized)
      | Some CallContract \<Rightarrow>
          if \<not> IsHexAddress h walletAddress then (''0'', Some Invalid_wallet_address)
          else
            let callData = pack_balanceOf h (HexToAddress h walletAddress);
                toAddress = HexToAddress h usdcAddress
            in case CallContract toAddress callData of
                 None \<Rightarrow> (''0'', Some Call_failed)
               | Some result \<Rightarrow>
                   if length result = 0 then (''0'', Some Empty_result)
                   else
                     case unpack_uint256 h result of
                       None \<Rightarrow> (''0'', Some Unpack_failed)
                     | Some balance \<Rightarrow> (usdc_string h balance, None))"

definition getParticipantCountFromContract :: "eth \<Rightarrow> string \<Rightarrow> go_error + int" where
  "getParticipantCountFromContract h vaultAddress =
     (case client h of
        None \<Rightarrow> Inl Client_not_initialized
      | Some CallContract \<Rightarrow>
          let callData = pack_getParticipantCount h;
              toAddress = HexToAddress h vaultAddress
          in case CallContract toAddress callData of
               None \<Rightarrow> Inl Call_failed
             | Some result \<Rightarrow>
                 (case unpack_uint256 h result of
                    None \<Rightarrow> Inl Unpack_failed
                  | Some participantCount \<Rightarrow> Inr participantCount))"

text \<open>
  \<^verbatim>\<open>GetProfile\<close>. The row is scanned into a \<^verbatim>\<open>Profile\<close> whose \<^verbatim>\<open>Balance\<close> is then set from
  the contract, or left at \<^verbatim>\<open>"0"\<close>.
\<close>

definition GetProfile :: "(query \<Rightarrow> bool) \<Rightarrow> eth \<Rightarrow> go_db \<Rightarrow> string \<Rightarrow> reply \<times> go_db" where
  "GetProfile fails h db walletAddress =
     (case QueryRow (fails ProfileSelect)
             (find (\<lambda>p. pr_WalletAddress p = walletAddress) (g_profiles db)) of
        Inl err \<Rightarrow>
          if err = sql_ErrNoRows then (Reply_error StatusNotFound ''Profile not found'', db)
          else (Reply_error StatusInternalServerError ''Database error'', db)
      | Inr profile \<Rightarrow>
          (let balance =
                 (case getUSDCBalanceFromContract h walletAddress of
                    (usdcBalance, None) \<Rightarrow> usdcBalance
                  | (usdcBalance, Some err) \<Rightarrow> ''0'')
           in (Reply_profile (profile\<lparr>pr_Balance := balance\<rparr>), db)))"

text \<open>
  \<^verbatim>\<open>GetEvents\<close>. \<open>page\<close> and \<open>limit\<close> are what \<^verbatim>\<open>strconv.Atoi\<close> gave (zero on an error, which
  is dropped); \<open>status\<close> and \<open>organizer\<close> are the two filters, empty when absent.
\<close>

record events_params =
  page :: int64
  limit :: int64
  status_filter :: string
  organizer_filter :: string

text \<open>
  The inner join of the two tables with the filters of the request, which the page
  query and the count query share.
\<close>

definition joined_events :: "go_db \<Rightarrow> events_params \<Rightarrow> (go_EventOnchain \<times> metadata_row) list" where
  "joined_events db q =
     filter (\<lambda>(eo, em).
        (status_filter q = [] \<or> mr_status em = status_filter q)
        \<and> (organizer_filter q = [] \<or> eo_OrganizerAddress eo = organizer_filter q))
       (concat (map (\<lambda>eo.
          map (\<lambda>em. (eo, em))
            (filter (\<lambda>em. mr_event_id em = eo_EventID eo) (g_events_metadata db)))
          (g_events_onchain db)))"

text \<open>
  The \<^verbatim>\<open>EventDetail\<close> built from a scanned row and a participant count.
\<close>

definition event_detail :: "go_EventOnchain \<times> metadata_row \<Rightarrow> int64 \<Rightarrow> EventDetail" where
  "event_detail row currentParticipants =
     (let eo = fst row; em = snd row
      in \<lparr> ed_EventID = eo_EventID eo,
           ed_VaultAddress = eo_VaultAddress eo,
           ed_OrganizerAddress = eo_OrganizerAddress eo,
           ed_StakeAmount = eo_StakeAmount eo,
           ed_MaxParticipants = eo_MaxParticipants eo,
           ed_CurrentParticipants = currentParticipants,
           ed_RegistrationDeadline = eo_RegistrationDeadline eo,
           ed_EventDate = eo_EventDate eo,
           ed_Title = mr_title em,
           ed_Status = mr_status em,
           ed_Description = mr_description em,
           ed_ImageURL = mr_image_url em,
           ed_OrganizerName = [] \<rparr>)"

text \<open>
  One pass of the \<^verbatim>\<open>rows.Next()\<close> loop: the scanned row becomes an \<^verbatim>\<open>EventDetail\<close>, with
  the participant count the vault reports, or zero.
\<close>

definition scan_event :: "eth \<Rightarrow> go_EventOnchain \<times> metadata_row \<Rightarrow> EventDetail" where
  "scan_event h row =
     (let currentParticipants =
            (if eo_VaultAddress (fst row) \<noteq> [] then
               (case getParticipantCountFromContract h (eo_VaultAddress (fst row)) of
                  Inr participantCount \<Rightarrow> (word_of_int participantCount :: int64)
                | Inl err \<Rightarrow> 0)
             else 0)
      in event_detail row currentParticipants)"

text \<open>
  The rows the loop sees. The page query ends in
  \<^verbatim>\<open>ORDER BY eo.event_id DESC LIMIT $n OFFSET $m\<close>. The database refuses a negative
  \<^verbatim>\<open>LIMIT\<close> or \<^verbatim>\<open>OFFSET\<close> when it runs the query, after \<^verbatim>\<open>Query\<close> has returned: that error
  is left in \<^verbatim>\<open>rows.Err()\<close>, which the handler never reads, and the loop sees no row.
\<close>

definition page_rows :: "go_db \<Rightarrow> events_params \<Rightarrow> (go_EventOnchain \<times> metadata_row) list" where
  "page_rows db q =
     (let offset = (page q - 1) * limit q in
      if sint (limit q) < 0 \<or> sint offset < 0 then []
      else take (nat (sint (limit q)))
             (drop (nat (sint offset))
                (sort_key (\<lambda>row. - sint (eo_EventID (fst row))) (joined_events db q))))"

text \<open>
  \<^verbatim>\<open>GetEvents\<close>: \<open>fails EventsSelect\<close> is an error returned by \<^verbatim>\<open>Query\<close> itself. An empty
  list of events is the \<^verbatim>\<open>nil\<close> slice.
\<close>

definition GetEvents :: "(query \<Rightarrow> bool) \<Rightarrow> eth \<Rightarrow> go_db \<Rightarrow> events_params \<Rightarrow> reply \<times> go_db" where
  "GetEvents fails h db q =
     (if fails EventsSelect
      then (Reply_error StatusInternalServerError ''Database error'', db)
      else
        let events = map (scan_event h) (page_rows db q) in
        if fails EventsCount
        then (Reply_error StatusInternalServerError ''Failed to get total count'', db)
        else (Reply_events events (int (length (joined_events db q))) (page q) (limit q), db))"

section \<open>The Go handlers: creating the metadata of an event\<close>

record create_request =
  EventID :: int64
  Title :: string
  Description :: string
  ImageURL :: string
  OrganizerAddress :: string

text \<open>
  \<^verbatim>\<open>INSERT INTO events_metadata (event_id, title, description, image_url, status) VALUES
  (...) ON CONFLICT (event_id) DO UPDATE SET title = ..., description = ..., image_url = ...,
  status = ... RETURNING event_id, title, description, image_url, status\<close>
\<close>

definition upsert_metadata ::
  "int64 \<Rightarrow> string \<Rightarrow> string \<Rightarrow> string \<Rightarrow> string \<Rightarrow> metadata_row list \<Rightarrow> metadata_row list" where
  "upsert_metadata e ttl descr img st rows =
     (if list_ex (\<lambda>r. mr_event_id r = e) rows
      then map (\<lambda>r. if mr_event_id r = e
                    then r\<lparr>mr_title := ttl, mr_description := Some descr,
                           mr_image_url := Some img, mr_status := st\<rparr>
                    else r) rows
      else rows @
        [\<lparr> mr_event_id = e, mr_title = ttl, mr_description = Some descr,
           mr_image_url = Some img, mr_status = st, mr_updated_at = None \<rparr>])"

text \<open>The join \<^verbatim>\<open>... FROM events_onchain eo JOIN events_metadata em ... WHERE eo.event_id = $1\<close>\<close>

definition select_detail :: "go_db \<Rightarrow> int64 \<Rightarrow> EventDetail option" where
  "select_detail db e =
     (case find (\<lambda>eo. eo_EventID eo = e) (g_events_onchain db) of
        None \<Rightarrow> None
      | Some eo \<Rightarrow>
          (case find (\<lambda>em. mr_event_id em = e) (g_events_metadata db) of
             None \<Rightarrow> None
           | Some em \<Rightarrow>
               Some \<lparr> ed_EventID = eo_EventID eo,
                      ed_VaultAddress = eo_VaultAddress eo,
                      ed_OrganizerAddress = eo_OrganizerAddress eo,
                      ed_StakeAmount = eo_StakeAmount eo,
                      ed_MaxParticipants = eo_MaxParticipants eo,
                      ed_CurrentParticipants = 0,
                      ed_RegistrationDeadline = eo_RegistrationDeadline eo,
                      ed_EventDate = eo_EventDate eo,
                      ed_Title = mr_title em,
                      ed_Status = mr_status em,
                      ed_Description = mr_description em,
                      ed_ImageURL = mr_image_url em,
                      ed_OrganizerName = [] \<rparr>))"

text \<open>
  \<^verbatim>\<open>CreateEvent\<close> (the handler that writes metadata only). \<^verbatim>\<open>event_id\<close> and \<^verbatim>\<open>title\<close> are
  \<^verbatim>\<open>binding:"required"\<close>: a zero identifier or an empty title is a binding error.
\<close>

definition CreateEvent :: "(query \<Rightarrow> bool) \<Rightarrow> go_db \<Rightarrow> create_request option \<Rightarrow> reply \<times> go_db" where
  "CreateEvent fails db body =
     (case body of
        None \<Rightarrow> (Bind_error, db)
      | Some req \<Rightarrow>
          if EventID req = 0 \<or> Title req = [] then (Bind_error, db)
          else if fails OnchainExists
          then (Reply_error StatusInternalServerError ''Failed to verify on-chain event data'', db)
          else
            let onchainExists =
                  list_ex (\<lambda>eo. eo_EventID eo = EventID req + 1) (g_events_onchain db)
            in
            if \<not> onchainExists
            then (Reply_error StatusBadRequest
                    ''On-chain event data not found. Make sure the smart contract transaction is confirmed and indexed.'',
                  db)
            else if fails MetadataUpsert
            then (Reply_error StatusInternalServerError ''Failed to create event metadata'', db)
            else
              let db1 = db\<lparr>g_events_metadata :=
                           upsert_metadata (EventID req + 1) (Title req) (Description req)
                             (ImageURL req) ''REGISTRATION_OPEN'' (g_events_metadata db)\<rparr>;
                  metadata = \<lparr> em_EventID = EventID req + 1, em_Title = Title req,
                               em_Status = ''REGISTRATION_OPEN'',
                               em_Description = Some (Description req),
                               em_ImageURL = Some (ImageURL req) \<rparr>
              in
              if fails DetailSelect then (Created_metadata metadata, db1)
              else
                case select_detail db1 (EventID req) of
                  None \<Rightarrow> (Created_metadata metadata, db1)
                | Some eventDetail \<Rightarrow> (Created_detail eventDetail, db1))"

section \<open>Notions and sample data used in the statements\<close>

text \<open>An on-chain row without its \<^verbatim>\<open>updated_at\<close>, and the number of rows with a given hash.\<close>

definition strip_updated :: "EventOnchain \<Rightarrow> EventOnchain" where
  "strip_updated r = r\<lparr>o_updated_at := None\<rparr>"

definition hash_count :: "string \<Rightarrow> js_db \<Rightarrow> nat" where
  "hash_count h db = length (filter (\<lambda>r. o_transaction_hash r = Some h) (events_onchain db))"

text \<open>A check-in as \<^verbatim>\<open>ValidateCheckIn\<close> leaves it when the request says it is valid.\<close>

definition validated :: "int \<Rightarrow> string \<Rightarrow> CheckIn \<Rightarrow> CheckIn" where
  "validated now organizerAddress c =
     c\<lparr>ci_IsValidated := True, ci_ValidatedAt := Some now, ci_ValidatedBy := organizerAddress\<rparr>"

text \<open>
  The outbound call to the node fails: there is no client, or \<^verbatim>\<open>CallContract\<close> returns an
  error for this address and call data.
\<close>

definition call_fails :: "eth \<Rightarrow> string \<Rightarrow> string \<Rightarrow> bool" where
  "call_fails h toAddress callData =
     (case client h of None \<Rightarrow> True | Some CallContract \<Rightarrow> CallContract toAddress callData = None)"

text \<open>Sample data: an empty constructor argument, an indexed event and small databases.\<close>

definition empty_data :: metadata_data where
  "empty_data =
     \<lparr> d_event_id = None, d_title = None, d_description = None, d_image_url = None,
       d_organizer_profile_id = None, d_location = None, d_category = None, d_tags = None,
       d_status = None, d_current_participants = None, d_deposited_to_yield = None,
       d_event_settled = None, d_total_yield_earned = None, d_total_net_yield = None,
       d_created_at = None, d_updated_at = None \<rparr>"

definition event42 :: EventOnchain where
  "event42 =
     \<lparr> o_vid = Some 1, o_block = Some 100, o_id = Some ''0xabc-0'', o_block_number = Some 100,
       o_timestamp = Some 1700000000, o_transaction_hash = Some ''0xabc'',
       o_contract_id = Some ''0xfactory'', o_event_id = Some ''42'', o_vault = Some ''0xvault'',
       o_organizer = Some ''0xorg'', o_stake_amount = Some ''1000000'',
       o_max_participant = Some 10, o_registration_deadline = Some 1700003600,
       o_event_date = Some 1700007200, o_gs_chain = Some ''base-sepolia'',
       o_gs_gid = Some ''gid-1'', o_created_at = None, o_updated_at = None \<rparr>"

definition empty_db :: js_db where
  "empty_db = \<lparr> events_onchain = [], events_metadata = [], profiles = [] \<rparr>"

definition onchain_only_db :: js_db where
  "onchain_only_db = \<lparr> events_onchain = [event42], events_metadata = [], profiles = [] \<rparr>"

definition no_failure :: "stmt \<Rightarrow> bool" where
  "no_failure s = False"


definition never_fails :: "nat \<Rightarrow> stmt \<Rightarrow> bool" where
  "never_fails i s = False"

definition fixed_clock :: "nat \<Rightarrow> int" where
  "fixed_clock i = 1700000100"

definition idle_empty :: client where
  "idle_empty = \<lparr> stored = empty_db, txn = None \<rparr>"

definition after_first :: "(js_error + EventOnchain) \<times> client" where
  "after_first = upsertEventFromGoldsky no_failure 1700000100 idle_empty (Some event42)"

definition after_second :: "(js_error + EventOnchain) \<times> client" where
  "after_second = upsertEventFromGoldsky no_failure 1700000200 (snd after_first) (Some event42)"

definition no_query_fails :: "query \<Rightarrow> bool" where
  "no_query_fails s = False"

definition open_event_db :: go_db where
  "open_event_db =
     \<lparr> g_events_onchain = [],
       g_events_metadata =
         [\<lparr> mr_event_id = 7, mr_title = ''Meetup'', mr_description = None, mr_image_url = None,
            mr_status = ''REGISTRATION_OPEN'', mr_updated_at = None \<rparr>],
       g_profiles = [], g_participant = [], g_checkins = [], g_events = [] \<rparr>"

definition confirm7 :: confirm_request where
  "confirm7 = \<lparr> TransactionHash = ''0xfeed'', AttendedParticipants = Some [] \<rparr>"

definition checkin1 :: CheckIn where
  "checkin1 =
     \<lparr> ci_ID = ''c1'', ci_EventID = ''7'', ci_UserAddress = ''0xuser'', ci_QRData = ''qr'',
       ci_CheckedInAt = 1700000000, ci_IsValidated = False, ci_ValidatedAt = None,
       ci_ValidatedBy = [] \<rparr>"

definition checkin_db :: go_db where
  "checkin_db =
     \<lparr> g_events_onchain = [], g_events_metadata = [], g_profiles = [], g_participant = [],
       g_checkins = [checkin1], g_events = [(''7'', ''0xorg'')] \<rparr>"

definition validate_c1 :: ValidateCheckInRequest where
  "validate_c1 = \<lparr> CheckInID = ''c1'', IsValid = True \<rparr>"

definition dead_node :: eth where
  "dead_node =
     \<lparr> client = Some (\<lambda>toAddress callData. None),
       IsHexAddress = (\<lambda>a. True),
       HexToAddress = (\<lambda>a. a),
       pack_balanceOf = (\<lambda>a. ''balanceOf:'' @ a),
       pack_getParticipantCount = ''getParticipantCount'',
       unpack_uint256 = (\<lambda>bytes. None),
       usdc_string = (\<lambda>n. ''?'') \<rparr>"

definition alice :: Profile where
  "alice = \<lparr> pr_ID = ''u1'', pr_WalletAddress = ''0xuser'', pr_Name = Some ''Alice'',
             pr_Email = None, pr_Balance = [] \<rparr>"

definition listing_db :: go_db where
  "listing_db =
     \<lparr> g_events_onchain =
         [\<lparr> eo_EventID = 7, eo_VaultAddress = ''0xvault'', eo_OrganizerAddress = ''0xorg'',
            eo_StakeAmount = ''1000000'', eo_MaxParticipants = 10,
            eo_RegistrationDeadline = 1700003600, eo_EventDate = 1700007200 \<rparr>],
       g_events_metadata =
         [\<lparr> mr_event_id = 7, mr_title = ''Meetup'', mr_description = None, mr_image_url = None,
            mr_status = ''REGISTRATION_OPEN'', mr_updated_at = None \<rparr>],
       g_profiles = [alice], g_participant = [], g_checkins = [], g_events = [] \<rparr>"

definition first_page :: events_params where
  "first_page = \<lparr> page = 1, limit = 10, status_filter = [], organizer_filter = [] \<rparr>"

definition meetup_detail :: EventDetail where
  "meetup_detail =
     \<lparr> ed_EventID = 7, ed_VaultAddress = ''0xvault'', ed_OrganizerAddress = ''0xorg'',
       ed_StakeAmount = ''1000000'', ed_MaxParticipants = 10, ed_CurrentParticipants = 0,
       ed_RegistrationDeadline = 1700003600, ed_EventDate = 1700007200,
       ed_Title = ''Meetup'', ed_Status = ''REGISTRATION_OPEN'', ed_Description = None,
       ed_ImageURL = None, ed_OrganizerName = [] \<rparr>"

definition two_events_db :: go_db where
  "two_events_db =
     \<lparr> g_events_onchain =
         [\<lparr> eo_EventID = 5, eo_VaultAddress = ''0xvault5'', eo_OrganizerAddress = ''0xorg'',
            eo_StakeAmount = ''1000000'', eo_MaxParticipants = 10,
            eo_RegistrationDeadline = 1700003600, eo_EventDate = 1700007200 \<rparr>,
          \<lparr> eo_EventID = 6, eo_VaultAddress = ''0xvault6'', eo_OrganizerAddress = ''0xorg'',
            eo_StakeAmount = ''2000000'', eo_MaxParticipants = 20,
            eo_RegistrationDeadline = 1700003600, eo_EventDate = 1700007200 \<rparr>],
       g_events_metadata =
         [\<lparr> mr_event_id = 5, mr_title = ''Old'', mr_description = None, mr_image_url = None,
            mr_status = ''LIVE'', mr_updated_at = None \<rparr>],
       g_profiles = [], g_participant = [], g_checkins = [], g_events = [] \<rparr>"

definition create5 :: create_request where
  "create5 = \<lparr> EventID = 5, Title = ''New'', Description = ''about'', ImageURL = [],
                OrganizerAddress = ''0xorg'' \<rparr>"

definition detail5 :: EventDetail where
  "detail5 =
     \<lparr> ed_EventID = 5, ed_VaultAddress = ''0xvault5'', ed_OrganizerAddress = ''0xorg'',
       ed_StakeAmount = ''1000000'', ed_MaxParticipants = 10, ed_CurrentParticipants = 0,
       ed_RegistrationDeadline = 1700003600, ed_EventDate = 1700007200,
       ed_Title = ''Old'', ed_Status = ''LIVE'', ed_Description = None,
       ed_ImageURL = None, ed_OrganizerName = [] \<rparr>"

section \<open>Properties of the model class\<close>

lemmas status_defs =
  REGISTRATION_OPEN_def REGISTRATION_CLOSED_def LIVE_def SETTLED_def VOIDED_def

lemma counter_step_nonneg:
  "0 \<le> current_participants m \<Longrightarrow> 0 \<le> current_participants (counter_step m c)"
  by (cases c) (simp_all add: incrementParticipantCount_def decrementParticipantCount_def)

lemma foldl_counter_step_nonneg:
  "0 \<le> current_participants m \<Longrightarrow> 0 \<le> current_participants (foldl counter_step m cs)"
  by (induction cs arbitrary: m) (simp_all add: counter_step_nonneg)

text \<open>
  C1 (as amended). With registration deadline \<open>rd\<close> before event date \<open>ed\<close> and \<open>now\<close> the
  clock in whole seconds, the time-derived status is \<^verbatim>\<open>REGISTRATION_OPEN\<close> before the
  deadline, \<^verbatim>\<open>REGISTRATION_CLOSED\<close> (some participant) or \<^verbatim>\<open>VOIDED\<close> (none) from the
  deadline up to the event date, and \<^verbatim>\<open>LIVE\<close> from the event date on. One second before
  the deadline it is \<^verbatim>\<open>REGISTRATION_OPEN\<close>; one second after the event date it is
  \<^verbatim>\<open>LIVE\<close>; one second after the deadline with no participant it is \<^verbatim>\<open>VOIDED\<close>
  provided that second is still before the event date (\<open>rd + 1 < ed\<close>).
\<close>

theorem updateStatusBasedOnTime_status:
  assumes "rd < ed" and "now = clock div 1000"
  shows "(now < rd \<longrightarrow>
            status (updateStatusBasedOnTime clock stamp rd ed m) = REGISTRATION_OPEN)
       \<and> (rd \<le> now \<and> now < ed \<and> current_participants m > 0 \<longrightarrow>
            status (updateStatusBasedOnTime clock stamp rd ed m) = REGISTRATION_CLOSED)
       \<and> (rd \<le> now \<and> now < ed \<and> current_participants m = 0 \<longrightarrow>
            status (updateStatusBasedOnTime clock stamp rd ed m) = VOIDED)
       \<and> (ed \<le> now \<longrightarrow>
            status (updateStatusBasedOnTime clock stamp rd ed m) = LIVE)
       \<and> (now = rd - 1 \<longrightarrow>
            status (updateStatusBasedOnTime clock stamp rd ed m) = REGISTRATION_OPEN)
       \<and> (now = rd + 1 \<and> rd + 1 < ed \<and> current_participants m = 0 \<longrightarrow>
            status (updateStatusBasedOnTime clock stamp rd ed m) = VOIDED)
       \<and> (now = ed + 1 \<longrightarrow>
            status (updateStatusBasedOnTime clock stamp rd ed m) = LIVE)"
  using assms by (simp add: updateStatusBasedOnTime_def Let_def status_defs)

text \<open>C1, an instance: deadline 100, event date 200, read at seconds 99, 101 and 201.\<close>

theorem updateStatusBasedOnTime_status_witness:
  "status (updateStatusBasedOnTime 99000 99001 100 200 (EventMetadata_constructor empty_data))
     = REGISTRATION_OPEN
   \<and> status (updateStatusBasedOnTime 101999 102000 100 200 (EventMetadata_constructor empty_data))
     = VOIDED
   \<and> status (updateStatusBasedOnTime 201000 201000 100 200 (EventMetadata_constructor empty_data))
     = LIVE"
  using updateStatusBasedOnTime_status [of 100 200 99 99000 99001 "EventMetadata_constructor empty_data"]
        updateStatusBasedOnTime_status [of 100 200 101 101999 102000 "EventMetadata_constructor empty_data"]
        updateStatusBasedOnTime_status [of 100 200 201 201000 201000 "EventMetadata_constructor empty_data"]
  by (simp add: EventMetadata_constructor_def empty_data_def or_num_def)

text \<open>
  C1 as stated fails when the event date is the very next second after the deadline:
  with deadline 100, event date 101 and no participant, the status derived at second
  \<open>100 + 1\<close> is \<^verbatim>\<open>LIVE\<close>.
\<close>

theorem updateStatusBasedOnTime_next_second_counterexample:
  "(100::int) < 101
   \<and> current_participants (EventMetadata_constructor empty_data) = 0
   \<and> (101000::int) div 1000 = 100 + 1
   \<and> status (updateStatusBasedOnTime 101000 101000 100 101 (EventMetadata_constructor empty_data))
       = LIVE
   \<and> status (updateStatusBasedOnTime 101000 101000 100 101 (EventMetadata_constructor empty_data))
       \<noteq> VOIDED"
  by (simp add: updateStatusBasedOnTime_def Let_def status_defs EventMetadata_constructor_def
      empty_data_def or_num_def)

text \<open>
  C10. Starting from a counter that is not negative, no sequence of
  \<^verbatim>\<open>incrementParticipantCount\<close> and \<^verbatim>\<open>decrementParticipantCount\<close> calls makes it negative,
  and a decrement at count zero changes neither the counter nor \<^verbatim>\<open>updated_at\<close>.
\<close>

theorem participant_counter_never_negative:
  assumes "0 \<le> current_participants m"
  shows "0 \<le> current_participants (counter_calls cs m)
       \<and> (current_participants m = 0 \<longrightarrow>
            current_participants (decrementParticipantCount stamp m) = 0
            \<and> updated_at (decrementParticipantCount stamp m) = updated_at m)"
  using assms
  by (simp add: counter_calls_def foldl_counter_step_nonneg decrementParticipantCount_def)

text \<open>C10, an instance: a fresh record, decremented, incremented and decremented twice.\<close>

theorem participant_counter_never_negative_witness:
  "0 \<le> current_participants
        (counter_calls [Decrement 5, Increment 6, Decrement 7, Decrement 8]
           (EventMetadata_constructor empty_data))
   \<and> current_participants (decrementParticipantCount 9 (EventMetadata_constructor empty_data)) = 0
   \<and> updated_at (decrementParticipantCount 9 (EventMetadata_constructor empty_data))
       = updated_at (EventMetadata_constructor empty_data)"
  using participant_counter_never_negative
          [of "EventMetadata_constructor empty_data"
              "[Decrement 5, Increment 6, Decrement 7, Decrement 8]" 9]
  by (simp add: EventMetadata_constructor_def empty_data_def or_num_def)

section \<open>Properties of \<^verbatim>\<open>getCompleteEvent\<close>\<close>

lemma left_join_without_metadata:
  assumes "\<not> list_ex (\<lambda>em. d_event_id em = Some e) (events_metadata db)"
  shows "left_join db (Some e)
         = map (\<lambda>eo. (eo, null_metadata)) (filter (\<lambda>eo. o_event_id eo = Some e) (events_onchain db))"
proof -
  have f: "filter (\<lambda>em. sql_eq (Some e) (d_event_id em)) (events_metadata db) = []"
    using assms by (auto simp: filter_empty_conv sql_eq_def list_ex_iff split: option.splits)
  have g: "(\<lambda>eo. sql_eq (o_event_id eo) (Some e)) = (\<lambda>eo. o_event_id eo = Some e)"
    by (auto simp: sql_eq_def fun_eq_iff split: option.splits)
  have h: "\<And>rows. (\<forall>eo\<in>set rows. o_event_id eo = Some e) \<Longrightarrow>
     concat (map (\<lambda>eo.
        (case filter (\<lambda>em. sql_eq (o_event_id eo) (d_event_id em)) (events_metadata db) of
           [] \<Rightarrow> [(eo, null_metadata)]
         | ems \<Rightarrow> map (\<lambda>em. (eo, em)) ems)) rows) = map (\<lambda>eo. (eo, null_metadata)) rows"
    subgoal for rows by (induction rows) (simp_all add: f)
    done
  show ?thesis unfolding left_join_def g by (rule h) simp
qed

lemma fromDatabaseData_null_metadata:
  "status (metadata (Event_fromDatabaseData od (null_metadata\<lparr>d_event_id := x\<rparr>))) = REGISTRATION_OPEN
   \<and> title (metadata (Event_fromDatabaseData od (null_metadata\<lparr>d_event_id := x\<rparr>))) = None"
  by (simp add: Event_fromDatabaseData_def Event_constructor_def EventMetadata_fromDatabaseRow_def
      EventMetadata_constructor_def metadata_as_data_def null_metadata_def Let_def or_str_def
      or_null_def REGISTRATION_OPEN_def)

text \<open>
  C2 (as amended). When the query itself succeeds, an identifier that has an on-chain
  row and no metadata row yields a combined event, neither an error nor \<^verbatim>\<open>null\<close>, whose
  metadata has status \<^verbatim>\<open>REGISTRATION_OPEN\<close> and the title \<^verbatim>\<open>null\<close>: this path gives no
  placeholder title.
\<close>

theorem getCompleteEvent_without_metadata:
  assumes "\<not> fails SelectComplete"
      and "list_ex (\<lambda>eo. o_event_id eo = Some e) (events_onchain db)"
      and "\<not> list_ex (\<lambda>em. d_event_id em = Some e) (events_metadata db)"
  shows "\<exists>ev. getCompleteEvent fails db (Some e) = Inr (Some ev)
            \<and> status (metadata ev) = REGISTRATION_OPEN
            \<and> title (metadata ev) = None"
proof -
  from assms(2) obtain eo rest where
    "filter (\<lambda>eo. o_event_id eo = Some e) (events_onchain db) = eo # rest"
    by (cases "filter (\<lambda>eo. o_event_id eo = Some e) (events_onchain db)")
       (auto simp: filter_empty_conv list_ex_iff)
  then have "left_join db (Some e) = (eo, null_metadata) # map (\<lambda>eo. (eo, null_metadata)) rest"
    using left_join_without_metadata [OF assms(3)] by simp
  then show ?thesis
    using assms(1) fromDatabaseData_null_metadata by (simp add: getCompleteEvent_def Let_def)
qed

text \<open>C2, an instance: event 42 indexed, no metadata row.\<close>

theorem getCompleteEvent_without_metadata_witness:
  "\<exists>ev. getCompleteEvent no_failure onchain_only_db (Some ''42'') = Inr (Some ev)
        \<and> status (metadata ev) = REGISTRATION_OPEN
        \<and> title (metadata ev) = None"
  using getCompleteEvent_without_metadata [of no_failure "''42''" onchain_only_db]
  by (simp add: no_failure_def onchain_only_db_def event42_def)

text \<open>
  C2 as stated asks for a title that is not \<^verbatim>\<open>null\<close>; for event 42, indexed and
  without a metadata row, the title of the event returned is \<^verbatim>\<open>null\<close>.
\<close>

theorem getCompleteEvent_title_counterexample:
  "events_onchain onchain_only_db = [event42]
   \<and> o_event_id event42 = Some ''42''
   \<and> events_metadata onchain_only_db = []
   \<and> map_sum id (map_option (title \<circ> metadata))
         (getCompleteEvent no_failure onchain_only_db (Some ''42'')) = Inr (Some None)"
  by (simp add: getCompleteEvent_def left_join_def onchain_only_db_def event42_def no_failure_def
      sql_eq_def fromDatabaseData_null_metadata Let_def)

section \<open>Properties of \<^verbatim>\<open>upsertEventFromGoldsky\<close>\<close>

lemma select_metadata_onchain_update [simp]:
  "select_metadata (db\<lparr>events_onchain := rows\<rparr>) eid = select_metadata db eid"
  by (simp add: select_metadata_def)

lemma upsert_try_success:
  assumes "upsert_try fails now (Some ev) c = (Inr saved, c')"
  shows "events_onchain (stored c') = snd (upsert_onchain_rows now ev (events_onchain (db_view c)))
       \<and> (select_metadata (db_view c) (o_event_id ev) \<noteq> [] \<longrightarrow>
            events_metadata (stored c') = events_metadata (db_view c))
       \<and> txn c' = None"
  using assms
  by (auto simp: upsert_try_def upsert_commit_def query_BEGIN_def query_COMMIT_def db_write_def
      db_view_def Let_def split: if_splits option.splits prod.splits)

lemma upsert_try_stored:
  "upsert_try fails now g c = (Inl e, c') \<Longrightarrow> stored c' = stored c"
  by (auto simp: upsert_try_def upsert_commit_def query_BEGIN_def db_write_def Let_def
      split: if_splits option.splits prod.splits)

lemma upsertEventFromGoldsky_error_stored:
  "upsertEventFromGoldsky fails now c g = (Inl e, c') \<Longrightarrow> stored c' = stored c"
  by (auto simp: upsertEventFromGoldsky_def query_ROLLBACK_def
      split: if_splits prod.splits sum.splits dest: upsert_try_stored)


lemma upsertEventFromGoldsky_success:
  assumes "upsertEventFromGoldsky fails now c (Some ev) = (Inr saved, c')"
  shows "events_onchain (stored c') = snd (upsert_onchain_rows now ev (events_onchain (db_view c)))
       \<and> (select_metadata (db_view c) (o_event_id ev) \<noteq> [] \<longrightarrow>
            events_metadata (stored c') = events_metadata (db_view c))
       \<and> txn c' = None"
  using assms
  by (auto simp: upsertEventFromGoldsky_def split: if_splits prod.splits sum.splits
      dest: upsert_try_success)




lemmas upsert_eval =
  upsertEventFromGoldsky_def upsert_try_def upsert_commit_def query_BEGIN_def query_COMMIT_def
  query_ROLLBACK_def db_write_def db_view_def upsert_onchain_rows_def select_metadata_def
  select_profile_def insert_metadata_rows_def same_hash_def sql_eq_def template_str_def
  EventOnchain_fromDatabaseRow_def EventOnchain_constructor_def or_null_def or_null_num_def
  Let_def


lemma find_None_same_hash:
  "find (same_hash ev) rows = None \<Longrightarrow> o_transaction_hash ev = Some h \<Longrightarrow>
   filter (\<lambda>r. o_transaction_hash r = Some h) rows = []"
  by (auto simp: find_None_iff same_hash_def sql_eq_def filter_empty_conv split: option.splits)

lemma upsert_onchain_rows_conflict:
  assumes "find (same_hash ev) rows = Some r"
  shows "map strip_updated (snd (upsert_onchain_rows now ev rows)) = map strip_updated rows"
    and "map o_transaction_hash (snd (upsert_onchain_rows now ev rows)) = map o_transaction_hash rows"
  using assms by (auto simp: upsert_onchain_rows_def strip_updated_def)

lemma length_filter_hash:
  "length (filter (\<lambda>r. o_transaction_hash r = Some h) rows)
   = count_list (map o_transaction_hash rows) (Some h)"
  by (induction rows) simp_all

lemma filter_hash_map:
  "map o_transaction_hash rows' = map o_transaction_hash rows \<Longrightarrow>
   length (filter (\<lambda>r. o_transaction_hash r = Some h) rows')
   = length (filter (\<lambda>r. o_transaction_hash r = Some h) rows)"
  by (simp add: length_filter_hash)

lemma find_list_ex: "(find P xs = None) = (\<not> list_ex P xs)"
  by (induction xs) simp_all

lemma list_ex_touch:
  "list_ex (same_hash ev) (map (\<lambda>r. if same_hash ev r then r\<lparr>o_updated_at := Some now\<rparr> else r) rows)
   = list_ex (same_hash ev) rows"
  by (induction rows) (simp_all add: same_hash_def)

lemma upsert_onchain_rows_has_row:
  assumes "o_transaction_hash ev = Some h"
  shows "list_ex (same_hash ev) (snd (upsert_onchain_rows now ev rows))"
proof (cases "find (same_hash ev) rows")
  case None
  have "same_hash ev (ev\<lparr>o_created_at := None, o_updated_at := None\<rparr>)"
    using assms by (simp add: same_hash_def sql_eq_def)
  with None show ?thesis by (simp add: upsert_onchain_rows_def Let_def)
next
  case (Some r)
  then have "list_ex (same_hash ev) rows" using find_list_ex [of "same_hash ev" rows] by simp
  with Some show ?thesis by (simp add: upsert_onchain_rows_def list_ex_touch)
qed

lemma upsert_onchain_rows_count:
  assumes "o_transaction_hash ev = Some h"
      and "length (filter (\<lambda>r. o_transaction_hash r = Some h) rows) \<le> 1"
  shows "length (filter (\<lambda>r. o_transaction_hash r = Some h) (snd (upsert_onchain_rows now ev rows))) = 1"
proof (cases "find (same_hash ev) rows")
  case None
  then show ?thesis using assms(1) find_None_same_hash [OF None assms(1)]
    by (simp add: upsert_onchain_rows_def Let_def)
next
  case (Some r)
  then have "r \<in> set rows" "same_hash ev r" by (auto simp: find_Some_iff)
  then have "r \<in> set (filter (\<lambda>r. o_transaction_hash r = Some h) rows)"
    using assms(1) by (auto simp: same_hash_def sql_eq_def split: option.splits)
  then have "length (filter (\<lambda>r. o_transaction_hash r = Some h) rows) \<noteq> 0"
    by (metis length_0_conv empty_iff list.set(1))
  with assms(2) have "length (filter (\<lambda>r. o_transaction_hash r = Some h) rows) = 1" by arith
  with filter_hash_map [OF upsert_onchain_rows_conflict(2) [OF Some]] show ?thesis by simp
qed

lemma upsert_onchain_rows_again:
  assumes "list_ex (same_hash ev) rows"
  shows "map strip_updated (snd (upsert_onchain_rows now ev rows)) = map strip_updated rows"
    and "map o_transaction_hash (snd (upsert_onchain_rows now ev rows)) = map o_transaction_hash rows"
proof -
  from assms obtain r where "find (same_hash ev) rows = Some r"
    using find_list_ex [of "same_hash ev" rows] by (cases "find (same_hash ev) rows") auto
  then show "map strip_updated (snd (upsert_onchain_rows now ev rows)) = map strip_updated rows"
    and "map o_transaction_hash (snd (upsert_onchain_rows now ev rows)) = map o_transaction_hash rows"
    by (rule upsert_onchain_rows_conflict)+
qed

lemma upsertEventFromGoldsky_cases:
  assumes "upsertEventFromGoldsky fails now c (Some ev) = (r, c')" and "txn c = None"
  shows "stored c' = stored c
       \<or> (events_onchain (stored c') = snd (upsert_onchain_rows now ev (events_onchain (stored c)))
          \<and> (select_metadata (stored c) (o_event_id ev) \<noteq> [] \<longrightarrow>
               events_metadata (stored c') = events_metadata (stored c)))"
proof (cases r)
  case (Inl e)
  with assms show ?thesis by (auto dest: upsertEventFromGoldsky_error_stored)
next
  case (Inr saved)
  with assms upsertEventFromGoldsky_success [of fails now c ev saved c']
  show ?thesis by (simp add: db_view_def)
qed

text \<open>
  C3. After a successful upsert of an event with transaction hash \<open>h\<close>, a second upsert
  of the same event, whatever its outcome, adds no on-chain row: the rows are the same
  up to \<^verbatim>\<open>updated_at\<close>, as many rows carry the hash \<open>h\<close> as before, exactly one when
  the hash was unique to begin with; and when a metadata row exists for the event
  identifier, the metadata table is left as it was.
\<close>

theorem upsert_twice_idempotent:
  assumes "o_transaction_hash ev = Some h"
      and "upsertEventFromGoldsky fails1 now1 c (Some ev) = (Inr saved, c1)"
      and "upsertEventFromGoldsky fails2 now2 c1 (Some ev) = (r2, c2)"
  shows "map strip_updated (events_onchain (stored c2))
           = map strip_updated (events_onchain (stored c1))
       \<and> length (events_onchain (stored c2)) = length (events_onchain (stored c1))
       \<and> hash_count h (stored c2) = hash_count h (stored c1)
       \<and> (hash_count h (db_view c) \<le> 1 \<longrightarrow> hash_count h (stored c2) = 1)
       \<and> (select_metadata (stored c1) (o_event_id ev) \<noteq> [] \<longrightarrow>
            events_metadata (stored c2) = events_metadata (stored c1))"
proof -
  have on1: "events_onchain (stored c1)
             = snd (upsert_onchain_rows now1 ev (events_onchain (db_view c)))"
    and idle: "txn c1 = None"
    using upsertEventFromGoldsky_success [OF assms(2)] by simp_all
  from on1 have ex1: "list_ex (same_hash ev) (events_onchain (stored c1))"
    using upsert_onchain_rows_has_row [OF assms(1)] by simp
  have c1: "hash_count h (db_view c) \<le> 1 \<longrightarrow> hash_count h (stored c1) = 1"
    using upsert_onchain_rows_count [OF assms(1)] on1 by (simp add: hash_count_def)
  from upsertEventFromGoldsky_cases [OF assms(3) idle]
  show ?thesis
  proof
    assume "stored c2 = stored c1"
    with c1 show ?thesis by simp
  next
    assume a: "events_onchain (stored c2)
                 = snd (upsert_onchain_rows now2 ev (events_onchain (stored c1)))
       \<and> (select_metadata (stored c1) (o_event_id ev) \<noteq> [] \<longrightarrow>
            events_metadata (stored c2) = events_metadata (stored c1))"
    have s: "map strip_updated (events_onchain (stored c2))
             = map strip_updated (events_onchain (stored c1))"
      using a upsert_onchain_rows_again(1) [OF ex1] by simp
    have t: "map o_transaction_hash (events_onchain (stored c2))
             = map o_transaction_hash (events_onchain (stored c1))"
      using a upsert_onchain_rows_again(2) [OF ex1] by simp
    have l: "length (events_onchain (stored c2)) = length (events_onchain (stored c1))"
      using t by (metis length_map)
    have c: "hash_count h (stored c2) = hash_count h (stored c1)"
      using filter_hash_map [OF t] by (simp add: hash_count_def)
    from s l c c1 a show ?thesis by simp
  qed
qed

lemma after_first_value:
  "after_first =
     (Inr event42,
      \<lparr> stored =
          \<lparr> events_onchain = [event42],
            events_metadata =
              [null_metadata\<lparr>d_event_id := Some ''42'', d_title := Some ''Event 42''\<rparr>],
            profiles = [] \<rparr>,
        txn = None \<rparr>)"
  by (simp add: after_first_def upsert_eval no_failure_def idle_empty_def empty_db_def event42_def
      null_metadata_def)

text \<open>C3, an instance: event 42 upserted twice, starting from the empty database.\<close>

theorem upsert_twice_idempotent_witness:
  "hash_count ''0xabc'' (stored (snd after_second)) = 1
   \<and> length (events_onchain (stored (snd after_second)))
       = length (events_onchain (stored (snd after_first)))
   \<and> events_metadata (stored (snd after_second)) = events_metadata (stored (snd after_first))"
proof -
  have h1: "o_transaction_hash event42 = Some ''0xabc''"
    by (simp add: event42_def)
  have h2: "upsertEventFromGoldsky no_failure 1700000100 idle_empty (Some event42)
            = (Inr event42, snd after_first)"
    using after_first_value by (simp add: after_first_def)
  have h3: "upsertEventFromGoldsky no_failure 1700000200 (snd after_first) (Some event42)
            = (fst after_second, snd after_second)"
    by (simp add: after_second_def)
  have m: "select_metadata (stored (snd after_first)) (o_event_id event42) \<noteq> []"
    by (simp add: after_first_value select_metadata_def sql_eq_def event42_def null_metadata_def)
  have c: "hash_count ''0xabc'' (db_view idle_empty) \<le> 1"
    by (simp add: hash_count_def db_view_def idle_empty_def empty_db_def)
  from upsert_twice_idempotent [OF h1 h2 h3] m c show ?thesis by simp
qed

section \<open>Properties of the indexer webhook\<close>

lemma process_events_objects:
  "list_all (\<lambda>g. g \<noteq> None) evs \<Longrightarrow>
   \<exists>ps. fst (process_events fails now i c evs acc) = Inr (acc @ ps) \<and> length ps = length evs"
proof (induction evs arbitrary: i c acc)
  case Nil
  then show ?case by simp
next
  case (Cons g evs)
  then obtain ev where g: "g = Some ev" by auto
  obtain r c' where u: "upsertEventFromGoldsky (fails i) (now i) c g = (r, c')"
    by (cases "upsertEventFromGoldsky (fails i) (now i) c g")
  from Cons have rest: "list_all (\<lambda>g. g \<noteq> None) evs" by simp
  show ?case
  proof (cases r)
    case (Inl e)
    from Cons.IH [OF rest, of "Suc i" c' "acc @ [Failed (o_event_id ev) e]"]
    obtain ps where "fst (process_events fails now (Suc i) c' evs (acc @ [Failed (o_event_id ev) e]))
        = Inr ((acc @ [Failed (o_event_id ev) e]) @ ps)" and "length ps = length evs" by blast
    then have "fst (process_events fails now i c (g # evs) acc)
        = Inr (acc @ (Failed (o_event_id ev) e # ps))
        \<and> length (Failed (o_event_id ev) e # ps) = length (g # evs)"
      using u g Inl by simp
    then show ?thesis by blast
  next
    case (Inr saved)
    from Cons.IH [OF rest, of "Suc i" c' "acc @ [Processed (o_event_id saved) (o_vault saved)]"]
    obtain ps where "fst (process_events fails now (Suc i) c' evs
          (acc @ [Processed (o_event_id saved) (o_vault saved)]))
        = Inr ((acc @ [Processed (o_event_id saved) (o_vault saved)]) @ ps)"
      and "length ps = length evs" by blast
    then have "fst (process_events fails now i c (g # evs) acc)
        = Inr (acc @ (Processed (o_event_id saved) (o_vault saved) # ps))
        \<and> length (Processed (o_event_id saved) (o_vault saved) # ps) = length (g # evs)"
      using u g Inr by simp
    then show ?thesis by blast
  qed
qed

lemma upsert_null_member:
  "\<exists>e c'. upsertEventFromGoldsky fails now c None = (Inl e, c') \<and> stored c' = stored c
          \<and> (txn c = None \<and> \<not> fails Rollback \<longrightarrow> c' = c)"
  by (simp add: upsertEventFromGoldsky_def upsert_try_def query_BEGIN_def query_ROLLBACK_def
      Let_def split: option.splits)

lemma process_events_null_member:
  "\<exists>c'. process_events fails now i c (None # rest) acc = (Inl TypeError, c')
        \<and> stored c' = stored c
        \<and> (txn c = None \<and> \<not> fails i Rollback \<longrightarrow> c' = c)"
proof -
  obtain e c' where "upsertEventFromGoldsky (fails i) (now i) c None = (Inl e, c')"
    and "stored c' = stored c" and "txn c = None \<and> \<not> fails i Rollback \<longrightarrow> c' = c"
    using upsert_null_member [of "fails i" "now i" c] by blast
  then show ?thesis by simp
qed

text \<open>
  C5 (the failing input). A batch whose first member is \<^verbatim>\<open>null\<close> is answered with the
  500 of the outer \<^verbatim>\<open>catch\<close> and leaves the database as it was, whatever follows the
  \<^verbatim>\<open>null\<close>: for \<^verbatim>\<open>[null, event 42]\<close> nothing is stored and no entry is reported, although
  event 42 alone is processed and reported. The \<^verbatim>\<open>catch\<close> of the loop reads
  \<^verbatim>\<open>goldskyEvent.event_id\<close> of the \<^verbatim>\<open>null\<close> member and throws.
\<close>

theorem handleGoldskyWebhook_null_member_aborts:
  "fst (handleGoldskyWebhook fails now c (Some (None # rest))) = Failed_to_process_500 TypeError
   \<and> stored (snd (handleGoldskyWebhook fails now c (Some (None # rest)))) = stored c
   \<and> handleGoldskyWebhook never_fails fixed_clock idle_empty (Some [None, Some event42])
     = (Failed_to_process_500 TypeError, idle_empty)
   \<and> fst (handleGoldskyWebhook never_fails fixed_clock idle_empty (Some [Some event42]))
     = Success_200 [Processed (Some ''42'') (Some ''0xvault'')] 1"
proof -
  have a: "\<And>fails now c rest.
      \<exists>c'. handleGoldskyWebhook fails now c (Some (None # rest))
              = (Failed_to_process_500 TypeError, c')
           \<and> stored c' = stored c
           \<and> (txn c = None \<and> \<not> fails 0 Rollback \<longrightarrow> c' = c)"
    subgoal for fails now c rest
      using process_events_null_member [of fails now 0 c rest "[]"]
      by (auto simp: handleGoldskyWebhook_def simp del: process_events.simps)
    done
  have b: "fst (handleGoldskyWebhook never_fails fixed_clock idle_empty (Some [Some event42]))
     = Success_200 [Processed (Some ''42'') (Some ''0xvault'')] 1"
    by (simp add: handleGoldskyWebhook_def upsert_eval never_fails_def fixed_clock_def
        idle_empty_def empty_db_def event42_def)
  have i: "txn idle_empty = None \<and> \<not> never_fails 0 Rollback"
    by (simp add: idle_empty_def never_fails_def)
  from a [of never_fails fixed_clock idle_empty "[Some event42]"] i
  have c: "handleGoldskyWebhook never_fails fixed_clock idle_empty (Some [None, Some event42])
     = (Failed_to_process_500 TypeError, idle_empty)" by auto
  from a [of fails now c rest] b c show ?thesis by auto
qed

section \<open>Properties of the settlement handlers\<close>

text \<open>
  C6 (as amended). For an event whose stored status is not \<^verbatim>\<open>LIVE\<close>, \<^verbatim>\<open>SettleEvent\<close>
  leaves the database as it is and does not answer 200; when its status query succeeds
  it answers 400 Bad Request, \<^verbatim>\<open>Event is not live\<close>.
\<close>

theorem SettleEvent_not_live:
  assumes "find (\<lambda>r. mr_event_id r = e) (g_events_metadata db) = Some r"
      and "mr_status r \<noteq> LIVE"
  shows "snd (SettleEvent fails now db (Some e)) = db
       \<and> status_code (fst (SettleEvent fails now db (Some e))) \<noteq> StatusOK
       \<and> (\<not> fails SettleSelect \<longrightarrow>
            fst (SettleEvent fails now db (Some e))
              = Reply_error StatusBadRequest ''Event is not live'')"
  using assms by (simp add: SettleEvent_def QueryRow_def LIVE_def)

text \<open>C6, an instance: event 7, whose status is \<^verbatim>\<open>REGISTRATION_OPEN\<close>.\<close>

theorem SettleEvent_not_live_witness:
  "SettleEvent no_query_fails 1700000000 open_event_db (Some 7)
     = (Reply_error StatusBadRequest ''Event is not live'', open_event_db)"
  using SettleEvent_not_live [of 7 open_event_db "hd (g_events_metadata open_event_db)"
          no_query_fails 1700000000]
  by (simp add: open_event_db_def no_query_fails_def LIVE_def prod_eq_iff)

text \<open>
  C6 as stated fails for event 7, whose status is \<^verbatim>\<open>REGISTRATION_OPEN\<close>: \<^verbatim>\<open>SettleEvent\<close>
  answers 400, which is not 409 Conflict, and \<^verbatim>\<open>ConfirmSettlement\<close> answers 200 and
  stores \<^verbatim>\<open>SETTLED\<close>.
\<close>

theorem settlement_non_live_counterexample:
  "map mr_status (g_events_metadata open_event_db) = [REGISTRATION_OPEN]
   \<and> REGISTRATION_OPEN \<noteq> LIVE
   \<and> status_code (fst (SettleEvent no_query_fails 1700000000 open_event_db (Some 7)))
       = StatusBadRequest
   \<and> StatusBadRequest \<noteq> StatusConflict
   \<and> status_code (fst (ConfirmSettlement no_query_fails 1700000000 open_event_db (Some 7)
         (Some confirm7))) = StatusOK
   \<and> map mr_status (g_events_metadata (snd (ConfirmSettlement no_query_fails 1700000000
         open_event_db (Some 7) (Some confirm7)))) = [SETTLED]"
  by (simp add: SettleEvent_def QueryRow_def ConfirmSettlement_def set_settled_def open_event_db_def
      no_query_fails_def confirm7_def REGISTRATION_OPEN_def LIVE_def SETTLED_def)

section \<open>Properties of \<^verbatim>\<open>ValidateCheckIn\<close>\<close>

lemma mark_attended_checkins [simp]:
  "g_checkins (mark_attended fails db c) = g_checkins db"
  by (simp add: mark_attended_def Let_def split: option.splits)

text \<open>
  C7. Once the check-in is found, the caller is the organizer of its event and the
  update of the check-in succeeds, a request with \<^verbatim>\<open>is_valid\<close> is answered 200 with the
  updated check-in, and the updated check-in is stored, whatever happens to the
  attendance mark: when the profile lookup fails or finds nothing, when the participant
  update fails, or when the insert fails, the participant table is left as it was and
  the answer is the same.
\<close>

theorem ValidateCheckIn_swallows_propagation_failure:
  assumes "CheckInID req \<noteq> []" and "organizerAddress \<noteq> []" and "IsValid req"
      and "\<not> fails CheckinSelect" and "\<not> fails OrganizerSelect" and "\<not> fails CheckinUpdate"
      and "find (\<lambda>c. ci_ID c = CheckInID req) (g_checkins db) = Some found"
      and "find (\<lambda>e. fst e = ci_EventID found) (g_events db) = Some (ci_EventID found, organizerAddress)"
  shows "fst (ValidateCheckIn fails now db organizerAddress (Some req))
           = Reply_checkin (validated now organizerAddress found)
       \<and> g_checkins (snd (ValidateCheckIn fails now db organizerAddress (Some req)))
           = map (\<lambda>c. if ci_ID c = CheckInID req then validated now organizerAddress c else c)
               (g_checkins db)
       \<and> (fails ProfileIdSelect
            \<or> find (\<lambda>p. pr_WalletAddress p = ci_UserAddress found) (g_profiles db) = None
            \<or> fails ParticipantUpdate
          \<longrightarrow> g_participant (snd (ValidateCheckIn fails now db organizerAddress (Some req)))
                = g_participant db)
       \<and> (\<forall>p. find (\<lambda>p. pr_WalletAddress p = ci_UserAddress found) (g_profiles db) = Some p
                \<and> \<not> list_ex (\<lambda>x. pt_user_id x = pr_ID p) (g_participant db)
                \<and> (fails ParticipantInsert
                     \<or> list_ex (\<lambda>x. pt_event_id x = ci_EventID found) (g_participant db))
          \<longrightarrow> g_participant (snd (ValidateCheckIn fails now db organizerAddress (Some req)))
                = g_participant db)"
  using assms
  by (auto simp: ValidateCheckIn_def QueryRow_def validated_def Let_def mark_attended_def split: option.splits)

text \<open>C7, an instance: the user of the check-in has no profile.\<close>

theorem ValidateCheckIn_swallows_propagation_failure_witness:
  "fst (ValidateCheckIn no_query_fails 1700000500 checkin_db ''0xorg'' (Some validate_c1))
     = Reply_checkin (validated 1700000500 ''0xorg'' checkin1)
   \<and> g_checkins (snd (ValidateCheckIn no_query_fails 1700000500 checkin_db ''0xorg''
        (Some validate_c1))) = [validated 1700000500 ''0xorg'' checkin1]
   \<and> g_participant (snd (ValidateCheckIn no_query_fails 1700000500 checkin_db ''0xorg''
        (Some validate_c1))) = []"
  using ValidateCheckIn_swallows_propagation_failure
          [of validate_c1 "''0xorg''" no_query_fails checkin_db checkin1 1700000500]
  by (simp add: validate_c1_def checkin_db_def checkin1_def no_query_fails_def)

section \<open>Properties of the reads through the node\<close>

lemma balance_call_fails:
  "call_fails h (HexToAddress h usdcAddress) (pack_balanceOf h (HexToAddress h w)) \<Longrightarrow>
   \<exists>b e. getUSDCBalanceFromContract h w = (b, Some e)"
  by (auto simp: call_fails_def getUSDCBalanceFromContract_def Let_def split: option.splits)

lemma count_call_fails:
  "call_fails h (HexToAddress h v) (pack_getParticipantCount h) \<Longrightarrow>
   \<exists>e. getParticipantCountFromContract h v = Inl e"
  by (auto simp: call_fails_def getParticipantCountFromContract_def Let_def split: option.splits)

lemma scan_event_call_fails:
  "call_fails h (HexToAddress h (eo_VaultAddress (fst row))) (pack_getParticipantCount h) \<Longrightarrow>
   scan_event h row = event_detail row 0"
  using count_call_fails [of h "eo_VaultAddress (fst row)"]
  by (auto simp: scan_event_def Let_def)

text \<open>
  C8. When the balance call to the node fails, \<^verbatim>\<open>GetProfile\<close> still answers 200 with the
  profile found and the balance \<^verbatim>\<open>"0"\<close>. When its two database queries succeed,
  \<^verbatim>\<open>GetEvents\<close> answers 200 whatever the node does, and lists every row of the page: a
  row whose participant-count call failed is listed with zero current participants and
  is otherwise as the database has it; when every such call fails, the listing is the
  page with zero participants throughout. Neither handler changes the database.
\<close>

theorem contract_failure_degrades_reads:
  "(\<not> fails ProfileSelect
      \<and> find (\<lambda>p. pr_WalletAddress p = w) (g_profiles db) = Some profile
      \<and> call_fails h (HexToAddress h usdcAddress) (pack_balanceOf h (HexToAddress h w))
     \<longrightarrow> GetProfile fails h db w = (Reply_profile (profile\<lparr>pr_Balance := ''0''\<rparr>), db))
   \<and> (\<not> fails EventsSelect \<and> \<not> fails EventsCount
     \<longrightarrow> GetEvents fails h db q
          = (Reply_events
               (map (\<lambda>row. if call_fails h (HexToAddress h (eo_VaultAddress (fst row)))
                                 (pack_getParticipantCount h)
                            then event_detail row 0 else scan_event h row)
                  (page_rows db q))
               (int (length (joined_events db q))) (page q) (limit q), db))
   \<and> (\<not> fails EventsSelect \<and> \<not> fails EventsCount
       \<and> (\<forall>row\<in>set (page_rows db q).
             call_fails h (HexToAddress h (eo_VaultAddress (fst row))) (pack_getParticipantCount h))
     \<longrightarrow> GetEvents fails h db q
          = (Reply_events (map (\<lambda>row. event_detail row 0) (page_rows db q))
               (int (length (joined_events db q))) (page q) (limit q), db))"
proof (intro conjI impI)
  assume a: "\<not> fails ProfileSelect
      \<and> find (\<lambda>p. pr_WalletAddress p = w) (g_profiles db) = Some profile
      \<and> call_fails h (HexToAddress h usdcAddress) (pack_balanceOf h (HexToAddress h w))"
  then obtain b e where "getUSDCBalanceFromContract h w = (b, Some e)"
    using balance_call_fails by blast
  with a show "GetProfile fails h db w = (Reply_profile (profile\<lparr>pr_Balance := ''0''\<rparr>), db)"
    by (simp add: GetProfile_def QueryRow_def)
next
  assume a: "\<not> fails EventsSelect \<and> \<not> fails EventsCount"
  have "map (scan_event h) (page_rows db q)
        = map (\<lambda>row. if call_fails h (HexToAddress h (eo_VaultAddress (fst row)))
                                 (pack_getParticipantCount h)
                            then event_detail row 0 else scan_event h row) (page_rows db q)"
    by (rule map_cong) (simp_all add: scan_event_call_fails)
  with a show "GetEvents fails h db q
          = (Reply_events
               (map (\<lambda>row. if call_fails h (HexToAddress h (eo_VaultAddress (fst row)))
                                 (pack_getParticipantCount h)
                            then event_detail row 0 else scan_event h row)
                  (page_rows db q))
               (int (length (joined_events db q))) (page q) (limit q), db)"
    by (simp add: GetEvents_def Let_def)
next
  assume a: "\<not> fails EventsSelect \<and> \<not> fails EventsCount
       \<and> (\<forall>row\<in>set (page_rows db q).
             call_fails h (HexToAddress h (eo_VaultAddress (fst row))) (pack_getParticipantCount h))"
  then have "map (scan_event h) (page_rows db q) = map (\<lambda>row. event_detail row 0) (page_rows db q)"
    by (auto intro: map_cong simp: scan_event_call_fails)
  with a show "GetEvents fails h db q
          = (Reply_events (map (\<lambda>row. event_detail row 0) (page_rows db q))
               (int (length (joined_events db q))) (page q) (limit q), db)"
    by (simp add: GetEvents_def Let_def)
qed

text \<open>C8, an instance: a node that fails every call.\<close>

theorem contract_failure_degrades_reads_witness:
  "GetProfile no_query_fails dead_node listing_db ''0xuser''
     = (Reply_profile (alice\<lparr>pr_Balance := ''0''\<rparr>), listing_db)
   \<and> GetEvents no_query_fails dead_node listing_db first_page
     = (Reply_events [meetup_detail] 1 1 10, listing_db)"
proof -
  have p: "page_rows listing_db first_page = [(hd (g_events_onchain listing_db),
                                               hd (g_events_metadata listing_db))]"
    by (simp add: page_rows_def joined_events_def listing_db_def first_page_def Let_def)
  have j: "int (length (joined_events listing_db first_page)) = 1"
    by (simp add: joined_events_def listing_db_def first_page_def)
  have d: "event_detail (hd (g_events_onchain listing_db), hd (g_events_metadata listing_db)) 0
           = meetup_detail"
    by (simp add: event_detail_def listing_db_def meetup_detail_def Let_def)
  have c: "call_fails dead_node (HexToAddress dead_node usdcAddress)
             (pack_balanceOf dead_node (HexToAddress dead_node ''0xuser''))"
    by (simp add: call_fails_def dead_node_def)
  have v: "\<forall>row\<in>set (page_rows listing_db first_page).
             call_fails dead_node (HexToAddress dead_node (eo_VaultAddress (fst row)))
               (pack_getParticipantCount dead_node)"
    by (simp add: call_fails_def dead_node_def)
  have f: "find (\<lambda>p. pr_WalletAddress p = ''0xuser'') (g_profiles listing_db) = Some alice"
    by (simp add: listing_db_def alice_def)
  have n: "\<not> no_query_fails ProfileSelect \<and> \<not> no_query_fails EventsSelect
           \<and> \<not> no_query_fails EventsCount"
    by (simp add: no_query_fails_def)
  from contract_failure_degrades_reads
         [of no_query_fails "''0xuser''" listing_db alice dead_node first_page]
       c f v n
  have "GetProfile no_query_fails dead_node listing_db ''0xuser''
          = (Reply_profile (alice\<lparr>pr_Balance := ''0''\<rparr>), listing_db)
        \<and> GetEvents no_query_fails dead_node listing_db first_page
          = (Reply_events (map (\<lambda>row. event_detail row 0) (page_rows listing_db first_page))
               (int (length (joined_events listing_db first_page)))
               (page first_page) (limit first_page), listing_db)"
    by blast
  then have "GetProfile no_query_fails dead_node listing_db ''0xuser''
          = (Reply_profile (alice\<lparr>pr_Balance := ''0''\<rparr>), listing_db)
        \<and> GetEvents no_query_fails dead_node listing_db first_page
          = (Reply_events [meetup_detail] 1 (page first_page) (limit first_page), listing_db)"
    by (simp add: p j d)
  then show ?thesis by (simp add: first_page_def)
qed

section \<open>Properties of \<^verbatim>\<open>CreateEvent\<close>\<close>

lemma find_upsert_metadata_other:
  "e' \<noteq> e \<Longrightarrow>
   find (\<lambda>r. mr_event_id r = e') (upsert_metadata e ttl descr img st rows)
   = find (\<lambda>r. mr_event_id r = e') rows"
proof -
  assume a: "e' \<noteq> e"
  have m: "find (\<lambda>r. mr_event_id r = e')
             (map (\<lambda>r. if mr_event_id r = e
                    then r\<lparr>mr_title := ttl, mr_description := Some descr,
                           mr_image_url := Some img, mr_status := st\<rparr>
                    else r) rows) = find (\<lambda>r. mr_event_id r = e') rows"
    using a by (induction rows) auto
  have n: "\<And>x. mr_event_id x = e \<Longrightarrow>
             find (\<lambda>r. mr_event_id r = e') (rows @ [x]) = find (\<lambda>r. mr_event_id r = e') rows"
    using a by (induction rows) auto
  show ?thesis by (simp add: upsert_metadata_def m n)
qed

lemma filter_upsert_metadata_other:
  "filter (\<lambda>r. mr_event_id r \<noteq> e) (upsert_metadata e ttl descr img st rows)
   = filter (\<lambda>r. mr_event_id r \<noteq> e) rows"
proof -
  have m: "filter (\<lambda>r. mr_event_id r \<noteq> e)
             (map (\<lambda>r. if mr_event_id r = e
                    then r\<lparr>mr_title := ttl, mr_description := Some descr,
                           mr_image_url := Some img, mr_status := st\<rparr>
                    else r) rows) = filter (\<lambda>r. mr_event_id r \<noteq> e) rows"
    by (induction rows) auto
  show ?thesis by (simp add: upsert_metadata_def m)
qed

lemma find_upsert_metadata_same:
  "\<exists>r. find (\<lambda>r. mr_event_id r = e) (upsert_metadata e ttl descr img st rows) = Some r
       \<and> mr_title r = ttl \<and> mr_description r = Some descr \<and> mr_image_url r = Some img
       \<and> mr_status r = st"
proof (cases "list_ex (\<lambda>r. mr_event_id r = e) rows")
  case True
  then have "\<exists>r. find (\<lambda>r. mr_event_id r = e)
             (map (\<lambda>r. if mr_event_id r = e
                    then r\<lparr>mr_title := ttl, mr_description := Some descr,
                           mr_image_url := Some img, mr_status := st\<rparr>
                    else r) rows) = Some r
       \<and> mr_title r = ttl \<and> mr_description r = Some descr \<and> mr_image_url r = Some img
       \<and> mr_status r = st"
    by (induction rows) auto
  with True show ?thesis by (simp add: upsert_metadata_def)
next
  case False
  then have "find (\<lambda>r. mr_event_id r = e) rows = None"
    by (simp add: find_None_iff list_ex_iff)
  then have "\<And>x. mr_event_id x = e \<Longrightarrow> find (\<lambda>r. mr_event_id r = e) (rows @ [x]) = Some x"
    by (induction rows) (auto split: if_splits)
  with False show ?thesis by (simp add: upsert_metadata_def)
qed

lemma select_detail_id: "select_detail db e = Some d \<Longrightarrow> ed_EventID d = e"
  by (auto simp: select_detail_def find_Some_iff split: option.splits)

text \<open>
  C9. For a request with identifier \<open>N\<close> (\<open>N + 1\<close> is Go's \<^verbatim>\<open>int64\<close> addition): without an
  on-chain row of identifier \<open>N + 1\<close> the answer is 400 and nothing is written; a 201
  means that an on-chain row \<open>N + 1\<close> exists, that the metadata row \<open>N + 1\<close> now carries
  the title of the request and the status \<^verbatim>\<open>REGISTRATION_OPEN\<close>, and that every other
  metadata row, that of \<open>N\<close> in particular, is as before; the detail returned is that of
  \<open>N\<close>, and the metadata returned in its place is that of \<open>N + 1\<close>.
\<close>

theorem CreateEvent_writes_next_identifier:
  assumes "EventID req = N" and "N \<noteq> 0" and "Title req \<noteq> []"
  shows "(\<not> fails OnchainExists
            \<and> \<not> list_ex (\<lambda>eo. eo_EventID eo = N + 1) (g_events_onchain db)
          \<longrightarrow> status_code (fst (CreateEvent fails db (Some req))) = StatusBadRequest
              \<and> snd (CreateEvent fails db (Some req)) = db)
       \<and> (status_code (fst (CreateEvent fails db (Some req))) = StatusCreated
          \<longrightarrow> list_ex (\<lambda>eo. eo_EventID eo = N + 1) (g_events_onchain db)
              \<and> (\<exists>r. find (\<lambda>r. mr_event_id r = N + 1)
                        (g_events_metadata (snd (CreateEvent fails db (Some req)))) = Some r
                     \<and> mr_title r = Title req \<and> mr_status r = REGISTRATION_OPEN)
              \<and> filter (\<lambda>r. mr_event_id r \<noteq> N + 1)
                   (g_events_metadata (snd (CreateEvent fails db (Some req))))
                 = filter (\<lambda>r. mr_event_id r \<noteq> N + 1) (g_events_metadata db)
              \<and> find (\<lambda>r. mr_event_id r = N)
                   (g_events_metadata (snd (CreateEvent fails db (Some req))))
                 = find (\<lambda>r. mr_event_id r = N) (g_events_metadata db)
              \<and> (\<forall>d. fst (CreateEvent fails db (Some req)) = Created_detail d
                      \<longrightarrow> ed_EventID d = N)
              \<and> (\<forall>m. fst (CreateEvent fails db (Some req)) = Created_metadata m
                      \<longrightarrow> em_EventID m = N + 1))"
proof -
  have ne: "N \<noteq> N + 1" by simp
  show ?thesis
    using assms ne
      find_upsert_metadata_same [of "N + 1" "Title req" "Description req" "ImageURL req"
         "''REGISTRATION_OPEN''" "g_events_metadata db"]
      find_upsert_metadata_other [of N "N + 1" "Title req" "Description req" "ImageURL req"
         "''REGISTRATION_OPEN''" "g_events_metadata db"]
    by (auto simp: CreateEvent_def Let_def REGISTRATION_OPEN_def filter_upsert_metadata_other
        split: option.splits dest: select_detail_id)
qed

text \<open>
  C9, an instance: events 5 and 6 are indexed and 5 has metadata; a request for 5
  writes the metadata of 6 and returns the detail of 5 with its old title.
\<close>

theorem CreateEvent_writes_next_identifier_witness:
  "fst (CreateEvent no_query_fails two_events_db (Some create5)) = Created_detail detail5
   \<and> map mr_event_id (g_events_metadata (snd (CreateEvent no_query_fails two_events_db
         (Some create5)))) = [5, 6]
   \<and> map mr_title (g_events_metadata (snd (CreateEvent no_query_fails two_events_db
         (Some create5)))) = [''Old'', ''New'']"
  using CreateEvent_writes_next_identifier [of create5 5 no_query_fails two_events_db]
  by (simp add: CreateEvent_def upsert_metadata_def select_detail_def two_events_db_def
      create5_def detail5_def no_query_fails_def Let_def)

end
